theory Spec2Isabelle
  imports Complex_Main
begin

section \<open>Reference ellipsoids of pymap3d (ellipsoid.py)\<close>

text \<open>
  The module has one class, \<^verbatim>\<open>Ellipsoid\<close>, whose \<^verbatim>\<open>__init__\<close> looks a model
  identifier up in a dictionary literal, copies the name and the two axes into the object
  and computes three derived attributes. The embedding below follows the method line by
  line: the dictionary is an association list read with \<open>map_of\<close>, the object is a
  record that the method updates attribute by attribute, and every \<^verbatim>\<open>raise\<close> is an
  \<open>Inl\<close> result.
\<close>

subsection \<open>Python floats\<close>

text \<open>
  A Python \<^verbatim>\<open>float\<close> is an IEEE 754 binary64 number. The finite ones are modelled by
  the real numbers they denote. A float literal denotes the rounded value of its decimal,
  and \<^verbatim>\<open>+\<close>, \<^verbatim>\<open>-\<close>, \<^verbatim>\<open>*\<close>, \<^verbatim>\<open>/\<close> and \<^verbatim>\<open>math.sqrt\<close> return the rounded value of the exact
  result; \<^verbatim>\<open>**\<close> calls the \<^verbatim>\<open>pow\<close> of the C library and is modelled in the same way.

  \<open>binary64\<close> is the rounding of IEEE 754 in its default mode: to the nearest number with
  a significand of 53 bits, ties to the even significand, with the subnormal numbers below
  \<open>2 powr - 1022\<close>. Overflow to infinity is not modelled (the definition has no largest
  exponent): the largest number of the program, the sum of Jupiter's axes, is below
  \<open>2 ^ 28\<close>. Signed zeros are one zero.
\<close>

definition round_half_even :: "real \<Rightarrow> int" where
  "round_half_even r =
     (let n = \<lfloor>r\<rfloor>; d = r - of_int n
      in if d < 1 / 2 then n else if 1 / 2 < d then n + 1 else if even n then n else n + 1)"

definition ulp_exponent :: "real \<Rightarrow> int" where
  "ulp_exponent x = max \<lfloor>log 2 \<bar>x\<bar>\<rfloor> (- 1022) - 52"

definition binary64 :: "real \<Rightarrow> real" where
  "binary64 x =
     (if x = 0 then 0
      else of_int (round_half_even (x / 2 powr of_int (ulp_exponent x))) *
             2 powr of_int (ulp_exponent x))"

text \<open>
  The rounding operator is a parameter \<open>rnd\<close> of the model, and the theorems below hold
  for every operator with the three properties collected in \<open>rounding\<close>:
  \<^item> rounding is monotone;
  \<^item> a rounded number is representable, so that rounding it again changes nothing;
  \<^item> \<open>m / 2 ^ k\<close> with \<open>\<bar>m\<bar> \<le> 2 ^ 53\<close> and \<open>k \<le> 1022\<close> is representable.
  They hold of \<open>binary64\<close> (\<open>rounding_binary64\<close> below), of the directed rounding modes, and
  of exact arithmetic, where \<open>rnd\<close> is the identity.
\<close>

definition rounding :: "(real \<Rightarrow> real) \<Rightarrow> bool" where
  "rounding rnd \<longleftrightarrow>
     (\<forall>x y. x \<le> y \<longrightarrow> rnd x \<le> rnd y) \<and>
     (\<forall>x. rnd (rnd x) = rnd x) \<and>
     (\<forall>(m::int) (k::nat). \<bar>m\<bar> \<le> 2 ^ 53 \<and> k \<le> 1022 \<longrightarrow>
        rnd (of_int m / 2 ^ k) = of_int m / 2 ^ k)"

text \<open>
  The exceptions the method can raise: the explicit \<^verbatim>\<open>raise NotImplementedError(...)\<close>
  with its message, \<^verbatim>\<open>ZeroDivisionError\<close> of float division and \<^verbatim>\<open>ValueError\<close> of
  \<^verbatim>\<open>math.sqrt\<close> on a negative number.
\<close>

datatype error = NotImplementedError string | ZeroDivisionError | ValueError

definition float_sub :: "(real \<Rightarrow> real) \<Rightarrow> real \<Rightarrow> real \<Rightarrow> real" where
  "float_sub rnd x y = rnd (x - y)"

definition float_add :: "(real \<Rightarrow> real) \<Rightarrow> real \<Rightarrow> real \<Rightarrow> real" where
  "float_add rnd x y = rnd (x + y)"

definition float_mul :: "(real \<Rightarrow> real) \<Rightarrow> real \<Rightarrow> real \<Rightarrow> real" where
  "float_mul rnd x y = rnd (x * y)"

definition float_truediv :: "(real \<Rightarrow> real) \<Rightarrow> real \<Rightarrow> real \<Rightarrow> error + real" where
  "float_truediv rnd x y = (if y = 0 then Inl ZeroDivisionError else Inr (rnd (x / y)))"

definition float_pow :: "(real \<Rightarrow> real) \<Rightarrow> real \<Rightarrow> nat \<Rightarrow> real" where
  "float_pow rnd x n = rnd (x ^ n)"

definition math_sqrt :: "(real \<Rightarrow> real) \<Rightarrow> real \<Rightarrow> error + real" where
  "math_sqrt rnd x = (if x < 0 then Inl ValueError else Inr (rnd (sqrt x)))"

subsection \<open>The registry\<close>

text \<open>
  Each value of the dictionary \<^verbatim>\<open>models\<close> is itself a dictionary with exactly the keys
  \<^verbatim>\<open>'name'\<close>, \<^verbatim>\<open>'a'\<close> and \<^verbatim>\<open>'b'\<close>: a record with the three fields. Strings are the byte
  strings of the UTF-8 source file, so that the two Cyrillic names are written with their
  bytes. The keys of the literal are pairwise distinct (\<open>models_distinct\<close> below), so that
  \<open>map_of\<close>, which returns the first binding of a key, reads the list as Python reads the
  dictionary.
\<close>

record entry =
  entry_name :: string
  entry_a :: real
  entry_b :: real

definition models :: "(real \<Rightarrow> real) \<Rightarrow> (string \<times> entry) list" where
  "models rnd = [
    (''maupertuis'', \<lparr>entry_name = ''Maupertuis (1738)'', entry_a = rnd 6397300.0, entry_b = rnd 6363806.283\<rparr>),
    (''plessis'', \<lparr>entry_name = ''Plessis (1817)'', entry_a = rnd 6376523.0, entry_b = rnd 6355862.9333\<rparr>),
    (''everest1830'', \<lparr>entry_name = ''Everest (1830)'', entry_a = rnd 6377299.365, entry_b = rnd 6356098.359\<rparr>),
    (''everest1830m'', \<lparr>entry_name = ''Everest 1830 Modified (1967)'', entry_a = rnd 6377304.063, entry_b = rnd 6356103.039\<rparr>),
    (''everest1967'', \<lparr>entry_name = ''Everest 1830 (1967 Definition)'', entry_a = rnd 6377298.556, entry_b = rnd 6356097.55\<rparr>),
    (''airy'', \<lparr>entry_name = ''Airy (1830)'', entry_a = rnd 6377563.396, entry_b = rnd 6356256.909\<rparr>),
    (''bessel'', \<lparr>entry_name = ''Bessel (1841)'', entry_a = rnd 6377397.155, entry_b = rnd 6356078.963\<rparr>),
    (''clarke1866'', \<lparr>entry_name = ''Clarke (1866)'', entry_a = rnd 6378206.4, entry_b = rnd 6356583.8\<rparr>),
    (''clarke1878'', \<lparr>entry_name = ''Clarke (1878)'', entry_a = rnd 6378190.0, entry_b = rnd 6356456.0\<rparr>),
    (''clarke1860'', \<lparr>entry_name = ''Clarke (1880)'', entry_a = rnd 6378249.145, entry_b = rnd 6356514.87\<rparr>),
    (''helmert'', \<lparr>entry_name = ''Helmert (1906)'', entry_a = rnd 6378200.0, entry_b = rnd 6356818.17\<rparr>),
    (''hayford'', \<lparr>entry_name = ''Hayford (1910)'', entry_a = rnd 6378388.0, entry_b = rnd 6356911.946\<rparr>),
    (''international1924'', \<lparr>entry_name = ''International (1924)'', entry_a = rnd 6378388.0, entry_b = rnd 6356911.946\<rparr>),
    (''krassovsky1940'', \<lparr>entry_name = ''Krassovsky (1940)'', entry_a = rnd 6378245.0, entry_b = rnd 6356863.019\<rparr>),
    (''wgs66'', \<lparr>entry_name = ''WGS66 (1966)'', entry_a = rnd 6378145.0, entry_b = rnd 6356759.769\<rparr>),
    (''australian'', \<lparr>entry_name = ''Australian National (1966)'', entry_a = rnd 6378160.0, entry_b = rnd 6356774.719\<rparr>),
    (''international1967'', \<lparr>entry_name = ''New International (1967)'', entry_a = rnd 6378157.5, entry_b = rnd 6356772.2\<rparr>),
    (''grs67'', \<lparr>entry_name = ''GRS-67 (1967)'', entry_a = rnd 6378160.0, entry_b = rnd 6356774.516\<rparr>),
    (''sa1969'', \<lparr>entry_name = ''South American (1969)'', entry_a = rnd 6378160.0, entry_b = rnd 6356774.719\<rparr>),
    (''wgs72'', \<lparr>entry_name = ''WGS-72 (1972)'', entry_a = rnd 6378135.0, entry_b = rnd 6356750.52001609\<rparr>),
    (''grs80'', \<lparr>entry_name = ''GRS-80 (1979)'', entry_a = rnd 6378137.0, entry_b = rnd 6356752.31414036\<rparr>),
    (''wgs84'', \<lparr>entry_name = ''WGS-84 (1984)'', entry_a = rnd 6378137.0, entry_b = rnd 6356752.31424518\<rparr>),
    (''iers1989'', \<lparr>entry_name = ''IERS (1989)'', entry_a = rnd 6378136.0, entry_b = rnd 6356751.302\<rparr>),
    (''pz90.11'', \<lparr>entry_name = [CHR 0xD0, CHR 0x9F, CHR 0xD0, CHR 0x97] @ ''-90 (2011)'', entry_a = rnd 6378136.0, entry_b = rnd 6356751.3618\<rparr>),
    (''iers2003'', \<lparr>entry_name = ''IERS (2003)'', entry_a = rnd 6378136.6, entry_b = rnd 6356751.9\<rparr>),
    (''gsk2011'', \<lparr>entry_name = [CHR 0xD0, CHR 0x93, CHR 0xD0, CHR 0xA1, CHR 0xD0, CHR 0x9A] @ '' (2011)'', entry_a = rnd 6378136.5, entry_b = rnd 6356751.758\<rparr>),
    (''mercury'', \<lparr>entry_name = ''Mercury'', entry_a = rnd 2440500.0, entry_b = rnd 2438300.0\<rparr>),
    (''venus'', \<lparr>entry_name = ''Venus'', entry_a = rnd 6051800.0, entry_b = rnd 6051800.0\<rparr>),
    (''moon'', \<lparr>entry_name = ''Moon'', entry_a = rnd 1738100.0, entry_b = rnd 1736000.0\<rparr>),
    (''mars'', \<lparr>entry_name = ''Mars'', entry_a = rnd 3396900.0, entry_b = rnd 3376097.80585952\<rparr>),
    (''jupyter'', \<lparr>entry_name = ''Jupiter'', entry_a = rnd 71492000.0, entry_b = rnd 66770054.3475922\<rparr>),
    (''io'', \<lparr>entry_name = ''Io'', entry_a = rnd 1829.7, entry_b = rnd 1815.8\<rparr>),
    (''saturn'', \<lparr>entry_name = ''Saturn'', entry_a = rnd 60268000.0, entry_b = rnd 54364301.5271271\<rparr>),
    (''uranus'', \<lparr>entry_name = ''Uranus'', entry_a = rnd 25559000.0, entry_b = rnd 24973000.0\<rparr>),
    (''neptune'', \<lparr>entry_name = ''Neptune'', entry_a = rnd 24764000.0, entry_b = rnd 24341000.0\<rparr>),
    (''pluto'', \<lparr>entry_name = ''Pluto'', entry_a = rnd 1188000.0, entry_b = rnd 1188000.0\<rparr>)]"

subsection \<open>The constructor\<close>

text \<open>
  The object under construction, with the seven attributes the method assigns. The method
  is a state transformer on \<open>self\<close>: it assigns \<^verbatim>\<open>model\<close>, \<^verbatim>\<open>name\<close> and the two axes, then
  reads the axes back from \<open>self\<close> to compute the derived attributes. An exception
  abandons the object. The parameter the source calls \<^verbatim>\<open>model\<close> is \<open>model_id\<close> here, since
  \<open>model\<close> is the attribute.
\<close>

record Ellipsoid =
  model :: string
  name :: string
  semimajor_axis :: real
  semiminor_axis :: real
  flattening :: real
  thirdflattening :: real
  eccentricity :: real

definition Ellipsoid_init ::
  "(real \<Rightarrow> real) \<Rightarrow> 'z Ellipsoid_scheme \<Rightarrow> string \<Rightarrow> error + 'z Ellipsoid_scheme" where
  "Ellipsoid_init rnd self model_id =
    (case map_of (models rnd) model_id of
       None \<Rightarrow>
         Inl (NotImplementedError (model_id @
           '' model not implemented, let us know and we will add it (or make a pull request)''))
     | Some m \<Rightarrow>
        (let self = self\<lparr>model := model_id\<rparr>;
             self = self\<lparr>name := entry_name m\<rparr>;
             self = self\<lparr>semimajor_axis := entry_a m\<rparr>;
             self = self\<lparr>semiminor_axis := entry_b m\<rparr>
         in case float_truediv rnd
                   (float_sub rnd (semimajor_axis self) (semiminor_axis self))
                   (semimajor_axis self) of
              Inl err \<Rightarrow> Inl err
            | Inr f \<Rightarrow>
               (let self = self\<lparr>flattening := f\<rparr>
                in case float_truediv rnd
                          (float_sub rnd (semimajor_axis self) (semiminor_axis self))
                          (float_add rnd (semimajor_axis self) (semiminor_axis self)) of
                     Inl err \<Rightarrow> Inl err
                   | Inr n \<Rightarrow>
                      (let self = self\<lparr>thirdflattening := n\<rparr>
                       in case math_sqrt rnd
                                 (float_sub rnd (float_mul rnd 2 (flattening self))
                                    (float_pow rnd (flattening self) 2)) of
                            Inl err \<Rightarrow> Inl err
                          | Inr e \<Rightarrow> Inr (self\<lparr>eccentricity := e\<rparr>)))))"

text \<open>
  The call \<^verbatim>\<open>Ellipsoid(...)\<close> with the argument given (\<open>Some\<close>) or left out (\<open>None\<close>): the
  signature is \<^verbatim>\<open>__init__(self, model: str = "wgs84")\<close>. This is what the specification
  calls \<^verbatim>\<open>construct\<close>.
\<close>

definition Ellipsoid_new ::
  "(real \<Rightarrow> real) \<Rightarrow> 'z Ellipsoid_scheme \<Rightarrow> string option \<Rightarrow> error + 'z Ellipsoid_scheme" where
  "Ellipsoid_new rnd self arg =
     Ellipsoid_init rnd self (case arg of None \<Rightarrow> ''wgs84'' | Some model_id \<Rightarrow> model_id)"

section \<open>Auxiliary facts\<close>

subsection \<open>The rounding operator\<close>

lemma rounding_mono: "rounding rnd \<Longrightarrow> x \<le> y \<Longrightarrow> rnd x \<le> rnd y"
  by (simp add: rounding_def)

lemma rounding_idem: "rounding rnd \<Longrightarrow> rnd (rnd x) = rnd x"
  by (simp add: rounding_def)

lemma rounding_dyadic:
  "rounding rnd \<Longrightarrow> \<bar>m\<bar> \<le> 2 ^ 53 \<Longrightarrow> k \<le> 1022 \<Longrightarrow> rnd (of_int m / 2 ^ k) = of_int m / 2 ^ k"
  by (simp add: rounding_def)

lemma rounding_int:
  assumes "rounding rnd" "\<bar>m\<bar> \<le> 2 ^ 53" shows "rnd (of_int m) = of_int m"
  using rounding_dyadic [OF assms, of 0] by simp

lemma rounding_zero: "rounding rnd \<Longrightarrow> rnd 0 = 0"
  using rounding_int [of rnd 0] by simp

lemma rounding_half: "rounding rnd \<Longrightarrow> rnd (1/2) = 1/2"
  using rounding_dyadic [of rnd 1 1] by simp

lemma rounding_quarter: "rounding rnd \<Longrightarrow> rnd (1/4) = 1/4"
  using rounding_dyadic [of rnd 1 2] by simp

lemma rounding_eighth: "rounding rnd \<Longrightarrow> rnd (1/8) = 1/8"
  using rounding_dyadic [of rnd 1 3] by simp

lemma rounding_id: "rounding (\<lambda>x. x)"
  by (simp add: rounding_def)

subsection \<open>Rounding to binary64\<close>

lemma rhe_int: "round_half_even (of_int n) = n"
  by (simp add: round_half_even_def)

lemma rhe_range: "round_half_even r = \<lfloor>r\<rfloor> \<or> round_half_even r = \<lfloor>r\<rfloor> + 1"
  by (simp add: round_half_even_def Let_def)

lemma rhe_mono:
  assumes "r \<le> s"
  shows "round_half_even r \<le> round_half_even s"
proof (cases "\<lfloor>r\<rfloor> = \<lfloor>s\<rfloor>")
  case True
  with assms show ?thesis
    by (auto simp: round_half_even_def Let_def)
next
  case False
  with assms have "\<lfloor>r\<rfloor> < \<lfloor>s\<rfloor>" by (simp add: floor_mono order.strict_iff_order)
  moreover have "round_half_even r \<le> \<lfloor>r\<rfloor> + 1" using rhe_range [of r] by linarith
  moreover have "\<lfloor>s\<rfloor> \<le> round_half_even s" using rhe_range [of s] by linarith
  ultimately show ?thesis by linarith
qed

lemma rhe_neg: "round_half_even (- r) = - round_half_even r"
proof (cases "r = of_int \<lfloor>r\<rfloor>")
  case True
  then have "round_half_even r = \<lfloor>r\<rfloor>" using rhe_int [of "\<lfloor>r\<rfloor>"] by simp
  moreover from True have "- r = of_int (- \<lfloor>r\<rfloor>)" by simp
  then have "round_half_even (- r) = - \<lfloor>r\<rfloor>" by (simp only: rhe_int)
  ultimately show ?thesis by simp
next
  case False
  have "of_int \<lfloor>r\<rfloor> \<le> r" by (rule of_int_floor_le)
  with False have lt: "of_int \<lfloor>r\<rfloor> < r" by linarith
  have up: "r < of_int \<lfloor>r\<rfloor> + 1" by linarith
  have fl: "\<lfloor>- r\<rfloor> = - \<lfloor>r\<rfloor> - 1"
  proof (rule floor_unique)
    show "of_int (- \<lfloor>r\<rfloor> - 1) \<le> - r"
      using up unfolding of_int_diff of_int_minus of_int_1 by linarith
    show "- r < of_int (- \<lfloor>r\<rfloor> - 1) + 1"
      using lt unfolding of_int_diff of_int_minus of_int_1 by linarith
  qed
  show ?thesis
    using lt by (auto simp: round_half_even_def Let_def fl)
qed

lemma p2_pos: "0 < (2::real) powr of_int u"
  by simp

lemma p2_add: "(2::real) powr of_int (u + v) = 2 powr of_int u * 2 powr of_int v"
  by (simp add: powr_add)

lemma p2_mono: "u \<le> v \<Longrightarrow> (2::real) powr of_int u \<le> 2 powr of_int v"
  by (simp add: powr_mono)

lemma p2_nat: "(2::real) powr of_int (int n) = 2 ^ n"
  by (simp add: powr_realpow)

lemma log2_bracket:
  assumes "0 < x"
  shows "2 powr of_int \<lfloor>log 2 x\<rfloor> \<le> x" and "x < 2 powr of_int (\<lfloor>log 2 x\<rfloor> + 1)"
  using floor_log_eq_powr_iff [of x 2 "\<lfloor>log 2 x\<rfloor>"] assms by simp_all

lemma ulp_exponent_neg: "ulp_exponent (- x) = ulp_exponent x"
  by (simp add: ulp_exponent_def)

lemma ulp_exponent_ge: "- 1074 \<le> ulp_exponent x"
  by (simp add: ulp_exponent_def)

lemma scaled_upper:
  assumes "0 < x"
  shows "x / 2 powr of_int (ulp_exponent x) \<le> 2 ^ 53"
proof -
  define e where "e = \<lfloor>log 2 x\<rfloor>"
  define u where "u = ulp_exponent x"
  have eu: "e + 1 \<le> u + 53" using assms by (simp add: u_def e_def ulp_exponent_def)
  have "x < 2 powr of_int (e + 1)" unfolding e_def by (rule log2_bracket [OF assms])
  also have "\<dots> \<le> 2 powr of_int (u + 53)" by (rule p2_mono [OF eu])
  also have "\<dots> = 2 powr of_int u * 2 ^ 53" using p2_add [of u 53] p2_nat [of 53] by simp
  finally have "x < 2 powr of_int u * 2 ^ 53" .
  then have "x / 2 powr of_int u < 2 ^ 53"
    using p2_pos [of u] by (simp add: field_simps)
  then show ?thesis unfolding u_def by simp
qed

lemma scaled_lower:
  assumes "0 < x" and "- 1022 \<le> \<lfloor>log 2 x\<rfloor>"
  shows "2 ^ 52 \<le> x / 2 powr of_int (ulp_exponent x)"
proof -
  define e where "e = \<lfloor>log 2 x\<rfloor>"
  define u where "u = ulp_exponent x"
  have eu: "e = u + 52" using assms by (simp add: u_def e_def ulp_exponent_def)
  have "(2::real) powr of_int u * 2 ^ 52 = 2 powr of_int (u + 52)"
    using p2_add [of u 52] p2_nat [of 52] by simp
  also have "\<dots> \<le> x" unfolding eu [symmetric] e_def by (rule log2_bracket [OF assms(1)])
  finally have "2 powr of_int u * 2 ^ 52 \<le> x" .
  then have "2 ^ 52 \<le> x / 2 powr of_int u"
    using p2_pos [of u] by (simp add: field_simps)
  then show ?thesis unfolding u_def by simp
qed

lemma binary64_neg: "binary64 (- x) = - binary64 x"
  by (simp add: binary64_def ulp_exponent_neg rhe_neg)

lemma binary64_nonneg:
  assumes "0 \<le> x"
  shows "0 \<le> binary64 x"
proof (cases "x = 0")
  case True
  then show ?thesis by (simp add: binary64_def)
next
  case False
  have "0 \<le> x / 2 powr of_int (ulp_exponent x)" using assms by simp
  from rhe_mono [OF this] have "0 \<le> round_half_even (x / 2 powr of_int (ulp_exponent x))"
    using rhe_int [of 0] by simp
  then show ?thesis using False by (simp add: binary64_def)
qed

lemma binary64_upper:
  assumes "0 < x"
  shows "binary64 x \<le> 2 powr of_int (ulp_exponent x + 53)"
proof -
  define u where "u = ulp_exponent x"
  have "round_half_even (x / 2 powr of_int u) \<le> round_half_even (of_int (2 ^ 53))"
    unfolding u_def using scaled_upper [OF assms] by (intro rhe_mono) simp
  then have "round_half_even (x / 2 powr of_int u) \<le> 2 ^ 53" by (simp only: rhe_int)
  then have "real_of_int (round_half_even (x / 2 powr of_int u)) \<le> 2 ^ 53"
    by (metis of_int_le_iff of_int_numeral of_int_power)
  then have "real_of_int (round_half_even (x / 2 powr of_int u)) * 2 powr of_int u
      \<le> 2 ^ 53 * 2 powr of_int u"
    using p2_pos [of u] by (simp only: mult_le_cancel_right_pos)
  also have "\<dots> = (2::real) powr of_int (u + 53)"
    using p2_add [of u 53] p2_nat [of 53] by simp
  finally show ?thesis using assms by (simp add: binary64_def u_def)
qed

lemma binary64_lower:
  assumes "0 < x" and "- 1022 \<le> \<lfloor>log 2 x\<rfloor>"
  shows "2 powr of_int (ulp_exponent x + 52) \<le> binary64 x"
proof -
  define u where "u = ulp_exponent x"
  have "round_half_even (of_int (2 ^ 52)) \<le> round_half_even (x / 2 powr of_int u)"
    unfolding u_def using scaled_lower [OF assms] by (intro rhe_mono) simp
  then have "2 ^ 52 \<le> round_half_even (x / 2 powr of_int u)" by (simp only: rhe_int)
  then have "2 ^ 52 \<le> real_of_int (round_half_even (x / 2 powr of_int u))"
    by (metis of_int_le_iff of_int_numeral of_int_power)
  then have "2 ^ 52 * 2 powr of_int u
      \<le> real_of_int (round_half_even (x / 2 powr of_int u)) * 2 powr of_int u"
    using p2_pos [of u] by (simp only: mult_le_cancel_right_pos)
  moreover have "2 ^ 52 * 2 powr of_int u = (2::real) powr of_int (u + 52)"
    using p2_add [of u 52] p2_nat [of 52] by simp
  ultimately have "2 powr of_int (u + 52)
      \<le> real_of_int (round_half_even (x / 2 powr of_int u)) * 2 powr of_int u"
    by (simp only:)
  then show ?thesis using assms(1) by (simp add: binary64_def u_def)
qed

lemma ulp_exponent_mono:
  assumes "0 < x" and "x \<le> y"
  shows "ulp_exponent x \<le> ulp_exponent y"
proof -
  have "log 2 x \<le> log 2 y" using assms by simp
  then have "\<lfloor>log 2 x\<rfloor> \<le> \<lfloor>log 2 y\<rfloor>" by (rule floor_mono)
  then show ?thesis using assms by (simp add: ulp_exponent_def)
qed

lemma binary64_mono_pos:
  assumes "0 < x" and "x \<le> y"
  shows "binary64 x \<le> binary64 y"
proof (cases "ulp_exponent x = ulp_exponent y")
  case True
  define p :: real where "p = 2 powr of_int (ulp_exponent y)"
  have p: "0 < p" by (simp add: p_def)
  have "x / p \<le> y / p" using assms p by (simp add: divide_right_mono)
  then have "round_half_even (x / p) \<le> round_half_even (y / p)" by (rule rhe_mono)
  then have "real_of_int (round_half_even (x / p)) * p \<le> real_of_int (round_half_even (y / p)) * p"
    using p by simp
  then show ?thesis using assms True by (simp add: binary64_def p_def)
next
  case False
  with ulp_exponent_mono [OF assms] have lt: "ulp_exponent x < ulp_exponent y" by simp
  have y: "0 < y" using assms by simp
  have "- 1074 < ulp_exponent y" using lt ulp_exponent_ge [of x] by simp
  then have ey: "- 1022 \<le> \<lfloor>log 2 y\<rfloor>" using y by (simp add: ulp_exponent_def max_def split: if_splits)
  have "binary64 x \<le> 2 powr of_int (ulp_exponent x + 53)" by (rule binary64_upper [OF assms(1)])
  also have "\<dots> \<le> 2 powr of_int (ulp_exponent y + 52)" using lt by (intro p2_mono) simp
  also have "\<dots> \<le> binary64 y" by (rule binary64_lower [OF y ey])
  finally show ?thesis .
qed

lemma binary64_mono:
  assumes "x \<le> y"
  shows "binary64 x \<le> binary64 y"
proof -
  consider "0 < x" | "x \<le> 0" "0 \<le> y" | "y < 0" using assms by linarith
  then show ?thesis
  proof cases
    case 1
    then show ?thesis using assms by (rule binary64_mono_pos)
  next
    case 2
    then have "0 \<le> binary64 (- x)" and "0 \<le> binary64 y" by (simp_all add: binary64_nonneg)
    then show ?thesis by (simp add: binary64_neg)
  next
    case 3
    then have "0 < - y" and "- y \<le> - x" using assms by simp_all
    then have "binary64 (- y) \<le> binary64 (- x)" by (rule binary64_mono_pos)
    then show ?thesis by (simp add: binary64_neg)
  qed
qed

lemma binary64_fix_less:
  assumes m: "\<bar>m\<bar> < 2 ^ 53" and j: "- 1074 \<le> j"
  shows "binary64 (of_int m * 2 powr of_int j) = of_int m * 2 powr of_int j"
proof (cases "m = 0")
  case True
  then show ?thesis by (simp add: binary64_def)
next
  case False
  define v :: real where "v = of_int m * 2 powr of_int j"
  define u where "u = ulp_exponent v"
  have v0: "v \<noteq> 0" using False by (simp add: v_def)
  have av: "\<bar>v\<bar> = of_int \<bar>m\<bar> * 2 powr of_int j" by (simp add: v_def abs_mult)
  have "real_of_int \<bar>m\<bar> < 2 ^ 53" using m by (metis of_int_less_iff of_int_numeral of_int_power)
  then have "\<bar>v\<bar> < 2 ^ 53 * 2 powr of_int j" unfolding av using p2_pos [of j] by simp
  also have "\<dots> = 2 powr of_int (j + 53)" using p2_add [of j 53] p2_nat [of 53] by simp
  finally have hi: "\<bar>v\<bar> < 2 powr of_int (j + 53)" .
  have "2 powr of_int \<lfloor>log 2 \<bar>v\<bar>\<rfloor> \<le> \<bar>v\<bar>" using v0 by (intro log2_bracket) simp
  with hi have "(2::real) powr of_int \<lfloor>log 2 \<bar>v\<bar>\<rfloor> < 2 powr of_int (j + 53)" by linarith
  then have "\<lfloor>log 2 \<bar>v\<bar>\<rfloor> < j + 53" by simp
  then have uj: "u \<le> j" using j by (simp add: u_def ulp_exponent_def)
  define d where "d = nat (j - u)"
  have jd: "j = u + int d" using uj by (simp add: d_def)
  have "v / 2 powr of_int u = of_int m * (2 powr of_int (u + int d) / 2 powr of_int u)"
    by (simp add: v_def jd)
  also have "2 powr of_int (u + int d) / 2 powr of_int u = (2::real) ^ d"
    using p2_add [of u "int d"] p2_nat [of d] p2_pos [of u] by simp
  finally have q: "v / 2 powr of_int u = of_int (m * 2 ^ d)" by simp
  have "binary64 v = of_int (round_half_even (v / 2 powr of_int u)) * 2 powr of_int u"
    using v0 by (simp add: binary64_def u_def)
  also have "\<dots> = of_int (m * 2 ^ d) * 2 powr of_int u" by (simp only: q rhe_int)
  also have "\<dots> = v / 2 powr of_int u * 2 powr of_int u" by (simp only: q)
  also have "\<dots> = v" using p2_pos [of u] by simp
  finally show ?thesis by (simp only: v_def)
qed

lemma binary64_fix:
  assumes m: "\<bar>m\<bar> \<le> 2 ^ 53" and j: "- 1074 \<le> j"
  shows "binary64 (of_int m * 2 powr of_int j) = of_int m * 2 powr of_int j"
proof (cases "\<bar>m\<bar> < 2 ^ 53")
  case True
  then show ?thesis using j by (rule binary64_fix_less)
next
  case False
  with m have "\<bar>m\<bar> = 2 * 2 ^ 52" by simp
  then obtain h where h: "m = 2 * h" and "\<bar>h\<bar> = 2 ^ 52"
    by (cases "0 \<le> m") (auto intro: that [of "2 ^ 52"] that [of "- (2 ^ 52)"])
  then have h53: "\<bar>h\<bar> < 2 ^ 53" by simp
  have j1: "- 1074 \<le> j + 1" using j by simp
  have "of_int m * 2 powr of_int j = of_int h * ((2::real) powr of_int j * 2)"
    by (simp add: h)
  also have "(2::real) powr of_int j * 2 = 2 powr of_int (j + 1)"
    using p2_add [of j 1] by simp
  finally have eq: "of_int m * 2 powr of_int j = of_int h * (2::real) powr of_int (j + 1)" .
  show ?thesis unfolding eq by (rule binary64_fix_less [OF h53 j1])
qed

lemma binary64_idem_pos:
  assumes "0 < x"
  shows "binary64 (binary64 x) = binary64 x"
proof -
  define u where "u = ulp_exponent x"
  define n where "n = round_half_even (x / 2 powr of_int u)"
  have b: "binary64 x = of_int n * 2 powr of_int u"
    using assms by (simp add: binary64_def n_def u_def)
  have "round_half_even (of_int 0) \<le> n"
    unfolding n_def using assms by (intro rhe_mono) simp
  then have n0: "0 \<le> n" by (simp only: rhe_int)
  have "n \<le> round_half_even (of_int (2 ^ 53))"
    unfolding n_def u_def using scaled_upper [OF assms] by (intro rhe_mono) simp
  then have "n \<le> 2 ^ 53" by (simp only: rhe_int)
  with n0 have "\<bar>n\<bar> \<le> 2 ^ 53" by simp
  moreover have "- 1074 \<le> u" unfolding u_def by (rule ulp_exponent_ge)
  ultimately show ?thesis unfolding b by (rule binary64_fix)
qed

lemma binary64_idem: "binary64 (binary64 x) = binary64 x"
proof -
  consider "0 < x" | "x = 0" | "0 < - x" by linarith
  then show ?thesis
  proof cases
    case 1
    then show ?thesis by (rule binary64_idem_pos)
  next
    case 2
    then show ?thesis by (simp add: binary64_def)
  next
    case 3
    from binary64_idem_pos [OF this] show ?thesis by (simp add: binary64_neg)
  qed
qed

lemma binary64_dyadic:
  assumes "\<bar>m\<bar> \<le> 2 ^ 53" and "k \<le> 1022"
  shows "binary64 (of_int m / 2 ^ k) = of_int m / 2 ^ k"
proof -
  have "(2::real) powr of_int (- int k) = 1 / 2 ^ k"
    using p2_nat [of k] by (simp add: powr_minus_divide)
  then have eq: "of_int m / 2 ^ k = of_int m * (2::real) powr of_int (- int k)" by simp
  have "- 1074 \<le> - int k" using assms(2) by simp
  with assms(1) show ?thesis unfolding eq by (rule binary64_fix)
qed

lemma rounding_binary64: "rounding binary64"
  unfolding rounding_def
  by (intro conjI allI impI binary64_mono binary64_idem binary64_dyadic) simp_all

text \<open>
  Evaluation on a given number: \<open>n / 2 ^ k\<close> is the rounded value of \<open>x\<close> when
  \<open>2 ^ 52 \<le> \<bar>x\<bar> * 2 ^ k < 2 ^ 53\<close> and \<open>n\<close> is the integer nearest to \<open>x * 2 ^ k\<close>, the
  even one on a tie. For a square root the conditions are stated on the squares.
\<close>

lemma rhe_eval:
  assumes "\<bar>r - of_int n\<bar> < 1 / 2 \<or> \<bar>r - of_int n\<bar> = 1 / 2 \<and> even n"
  shows "round_half_even r = n"
proof -
  consider "of_int n \<le> r" "r < of_int n + 1 / 2" | "r = of_int n + 1 / 2" "even n"
    | "of_int n - 1 / 2 < r" "r < of_int n" | "r = of_int n - 1 / 2" "even n"
    using assms by (auto simp: abs_if split: if_splits)
  then show ?thesis
  proof cases
    case 1
    then have "\<lfloor>r\<rfloor> = n" by (intro floor_unique) simp_all
    then show ?thesis using 1 by (simp add: round_half_even_def)
  next
    case 2
    then have "\<lfloor>r\<rfloor> = n" by (intro floor_unique) simp_all
    then show ?thesis using 2 by (simp add: round_half_even_def)
  next
    case 3
    then have "\<lfloor>r\<rfloor> = n - 1" by (intro floor_unique) simp_all
    then show ?thesis using 3 by (simp add: round_half_even_def)
  next
    case 4
    then have "\<lfloor>r\<rfloor> = n - 1" by (intro floor_unique) simp_all
    then show ?thesis using 4 by (simp add: round_half_even_def)
  qed
qed

lemma binary64_eval:
  fixes k :: nat
  assumes lo: "2 ^ 52 \<le> \<bar>x\<bar> * 2 ^ k" and hi: "\<bar>x\<bar> * 2 ^ k < 2 ^ 53" and k: "k \<le> 1074"
    and n: "\<bar>x * 2 ^ k - of_int n\<bar> < 1 / 2 \<or> \<bar>x * 2 ^ k - of_int n\<bar> = 1 / 2 \<and> even n"
  shows "binary64 x = of_int n / 2 ^ k"
proof -
  define e where "e = 52 - int k"
  have pk: "(2::real) powr (- real k) = 1 / 2 ^ k"
    by (simp add: powr_minus_divide powr_realpow)
  have "(2::real) powr of_int e * 2 ^ k = 2 powr of_int (e + int k)"
    using p2_add [of e "int k"] p2_nat [of k] by simp
  also have "\<dots> = 2 ^ 52" using p2_nat [of 52] by (simp add: e_def)
  finally have pe: "(2::real) powr of_int e * 2 ^ k = 2 ^ 52" .
  have "(2::real) powr of_int (e + 1) * 2 ^ k = 2 powr of_int (e + 1 + int k)"
    using p2_add [of "e + 1" "int k"] p2_nat [of k] by simp
  also have "\<dots> = 2 ^ 53" using p2_nat [of 53] by (simp add: e_def)
  finally have pe1: "(2::real) powr of_int (e + 1) * 2 ^ k = 2 ^ 53" .
  have "2 powr of_int e * 2 ^ k \<le> \<bar>x\<bar> * 2 ^ k" using lo by (simp only: pe)
  then have a: "2 powr of_int e \<le> \<bar>x\<bar>" by simp
  have "\<bar>x\<bar> * 2 ^ k < 2 powr of_int (e + 1) * 2 ^ k" using hi by (simp only: pe1)
  then have b: "\<bar>x\<bar> < 2 powr of_int (e + 1)" by simp
  have x0: "x \<noteq> 0" using a p2_pos [of e] by auto
  have "0 < \<bar>x\<bar>" using x0 by simp
  then have "\<lfloor>log 2 \<bar>x\<bar>\<rfloor> = e" using a b by (simp add: floor_log_eq_powr_iff)
  then have u: "ulp_exponent x = - int k" using k by (simp add: ulp_exponent_def e_def)
  have r: "round_half_even (x * 2 ^ k) = n" using n by (rule rhe_eval)
  show ?thesis using x0 by (simp add: binary64_def u pk r)
qed

lemma binary64_sqrt_eval:
  fixes k :: nat
  assumes lo: "4 ^ 52 \<le> d * 4 ^ k" and hi: "d * 4 ^ k < 4 ^ 53" and k: "k \<le> 1074"
    and n1: "1 \<le> n"
    and n: "(of_int n - 1 / 2)\<^sup>2 < d * 4 ^ k" "d * 4 ^ k < (of_int n + 1 / 2)\<^sup>2"
  shows "binary64 (sqrt d) = of_int n / 2 ^ k"
proof -
  have s4: "sqrt (4 ^ m) = 2 ^ m" for m :: nat
    by (simp add: real_sqrt_power)
  have y: "sqrt d * 2 ^ k = sqrt (d * 4 ^ k)"
    by (simp add: real_sqrt_mult s4)
  have d0: "0 \<le> sqrt d"
  proof -
    have "(0::real) < 4 ^ 52" by simp
    with lo have "0 < d * 4 ^ k" by linarith
    then have "0 < d" by (simp add: zero_less_mult_iff)
    then show ?thesis by simp
  qed
  have "sqrt (4 ^ 52) \<le> sqrt (d * 4 ^ k)" using lo by (simp only: real_sqrt_le_iff)
  then have a: "2 ^ 52 \<le> \<bar>sqrt d\<bar> * 2 ^ k" using d0 by (simp only: s4 y abs_of_nonneg)
  have "sqrt (d * 4 ^ k) < sqrt (4 ^ 53)" using hi by (simp only: real_sqrt_less_iff)
  then have b: "\<bar>sqrt d\<bar> * 2 ^ k < 2 ^ 53" using d0 by (simp only: s4 y abs_of_nonneg)
  have "real_of_int n - 1 / 2 < sqrt (d * 4 ^ k)"
    using n(1) by (rule real_less_rsqrt)
  then have c: "of_int n - 1 / 2 < sqrt d * 2 ^ k" by (simp only: y)
  have "0 \<le> real_of_int n + 1 / 2" using n1 by simp
  then have "sqrt (d * 4 ^ k) < real_of_int n + 1 / 2"
    using n(2) by (intro real_less_lsqrt) simp_all
  then have e: "sqrt d * 2 ^ k < of_int n + 1 / 2" by (simp only: y)
  from c e have "\<bar>sqrt d * 2 ^ k - of_int n\<bar> < 1 / 2" by linarith
  then have "\<bar>sqrt d * 2 ^ k - of_int n\<bar> < 1 / 2 \<or>
      \<bar>sqrt d * 2 ^ k - of_int n\<bar> = 1 / 2 \<and> even n" ..
  with a b k show ?thesis by (rule binary64_eval)
qed

subsection \<open>The arithmetic of the constructor\<close>

text \<open>
  The two axes of an ellipsoid whose exact axes \<open>A \<ge> B\<close> differ by less than an eighth of
  \<open>B\<close>: the rounded axes stay ordered and positive, the divisions are defined, and the
  flattening lies between \<open>0\<close> and \<open>1 / 8\<close>. The integers \<open>\<lfloor>B\<rfloor>\<close> and \<open>\<lceil>A\<rceil>\<close> are
  representable and bracket the rounded axes.
\<close>

lemma axes_ok:
  assumes R: "rounding rnd" and B1: "1 \<le> B" and BA: "B \<le> A" and A52: "A \<le> 2 ^ 52"
    and gap: "8 * (A - B + 2) \<le> B - 1"
  shows "rnd B \<le> rnd A" and "1 \<le> rnd B"
    and "0 \<le> rnd (rnd A - rnd B)"
    and "0 \<le> rnd (rnd (rnd A - rnd B) / rnd A)"
    and "rnd (rnd (rnd A - rnd B) / rnd A) \<le> 1 / 8"
    and "2 \<le> rnd (rnd A + rnd B)"
proof -
  define L where "L = \<lfloor>B\<rfloor>"
  define U where "U = \<lceil>A\<rceil>"
  have L1: "1 \<le> L" using B1 by (simp add: L_def le_floor_iff)
  have LB: "of_int L \<le> B" by (simp add: L_def)
  have BL: "B - 1 < of_int L" unfolding L_def by linarith
  have AU: "A \<le> of_int U" by (simp add: U_def)
  have UA: "of_int U < A + 1" unfolding U_def by linarith
  have U52: "U \<le> 2 ^ 52" using A52 by (simp add: U_def ceiling_le_iff)
  have LU: "L \<le> U" using LB BA AU by linarith
  have fixL: "rnd (of_int L) = of_int L"
    using L1 LU U52 by (intro rounding_int [OF R]) simp
  have fixU: "rnd (of_int U) = of_int U"
    using L1 LU U52 by (intro rounding_int [OF R]) simp
  have fixD: "rnd (of_int (U - L)) = of_int (U - L)"
    using L1 LU U52 by (intro rounding_int [OF R]) simp
  show yx: "rnd B \<le> rnd A" by (rule rounding_mono [OF R BA])
  have Ly: "of_int L \<le> rnd B" using rounding_mono [OF R LB] fixL by simp
  have xU: "rnd A \<le> of_int U" using rounding_mono [OF R AU] fixU by simp
  show y1: "1 \<le> rnd B" using Ly L1 by linarith
  have "rnd 0 \<le> rnd (rnd A - rnd B)" using yx by (intro rounding_mono [OF R]) simp
  then show s0: "0 \<le> rnd (rnd A - rnd B)" by (simp add: rounding_zero [OF R])
  have "rnd (rnd A - rnd B) \<le> rnd (of_int (U - L))"
    using Ly xU by (intro rounding_mono [OF R]) simp
  then have sD: "rnd (rnd A - rnd B) \<le> of_int (U - L)" by (simp only: fixD)
  have x_pos: "0 < rnd A" using yx y1 by linarith
  have q0: "0 \<le> rnd (rnd A - rnd B) / rnd A" using s0 x_pos by simp
  have "rnd 0 \<le> rnd (rnd (rnd A - rnd B) / rnd A)" by (rule rounding_mono [OF R q0])
  then show "0 \<le> rnd (rnd (rnd A - rnd B) / rnd A)" by (simp add: rounding_zero [OF R])
  have "8 * rnd (rnd A - rnd B) \<le> rnd A"
    using sD UA BL gap Ly yx by simp
  then have "rnd (rnd A - rnd B) / rnd A \<le> 1 / 8"
    using x_pos by (simp add: field_simps)
  then have "rnd (rnd (rnd A - rnd B) / rnd A) \<le> rnd (1 / 8)" by (rule rounding_mono [OF R])
  then show "rnd (rnd (rnd A - rnd B) / rnd A) \<le> 1 / 8" by (simp only: rounding_eighth [OF R])
  have "rnd (of_int 2) \<le> rnd (rnd A + rnd B)"
    using yx y1 by (intro rounding_mono [OF R]) simp
  then show "2 \<le> rnd (rnd A + rnd B)" using rounding_int [OF R, of 2] by simp
qed

lemma ecc_ok:
  assumes R: "rounding rnd" and f0: "0 \<le> f" and f8: "f \<le> 1 / 8" and fixf: "rnd f = f"
  shows "0 \<le> rnd (rnd (2 * f) - rnd (f ^ 2))"
    and "0 \<le> rnd (sqrt (rnd (rnd (2 * f) - rnd (f ^ 2))))"
    and "rnd (sqrt (rnd (rnd (2 * f) - rnd (f ^ 2)))) \<le> 1 / 2"
proof -
  have "rnd f \<le> rnd (2 * f)" using f0 by (intro rounding_mono [OF R]) simp
  then have lo: "f \<le> rnd (2 * f)" by (simp only: fixf)
  have "f ^ 2 \<le> f" using f0 f8 by (simp add: power2_eq_square mult_left_le)
  then have "rnd (f ^ 2) \<le> rnd f" by (rule rounding_mono [OF R])
  then have sq: "rnd (f ^ 2) \<le> f" by (simp only: fixf)
  have "rnd 0 \<le> rnd (f ^ 2)" by (intro rounding_mono [OF R]) simp
  then have sq0: "0 \<le> rnd (f ^ 2)" by (simp add: rounding_zero [OF R])
  have "rnd (2 * f) \<le> rnd (1 / 4)" using f8 by (intro rounding_mono [OF R]) simp
  then have hi: "rnd (2 * f) \<le> 1 / 4" by (simp only: rounding_quarter [OF R])
  have "rnd 0 \<le> rnd (rnd (2 * f) - rnd (f ^ 2))"
    using lo sq by (intro rounding_mono [OF R]) simp
  then show d0: "0 \<le> rnd (rnd (2 * f) - rnd (f ^ 2))" by (simp add: rounding_zero [OF R])
  have "rnd (rnd (2 * f) - rnd (f ^ 2)) \<le> rnd (1 / 4)"
    using hi sq0 by (intro rounding_mono [OF R]) simp
  then have d4: "rnd (rnd (2 * f) - rnd (f ^ 2)) \<le> 1 / 4" by (simp only: rounding_quarter [OF R])
  have "rnd 0 \<le> rnd (sqrt (rnd (rnd (2 * f) - rnd (f ^ 2))))"
    using d0 by (intro rounding_mono [OF R]) simp
  then show "0 \<le> rnd (sqrt (rnd (rnd (2 * f) - rnd (f ^ 2))))"
    by (simp add: rounding_zero [OF R])
  have "sqrt (rnd (rnd (2 * f) - rnd (f ^ 2))) \<le> sqrt (1 / 4)"
    using d4 by (simp only: real_sqrt_le_iff)
  also have "sqrt (1 / 4) = 1 / 2"
    by (simp add: real_sqrt_divide)
  finally have "rnd (sqrt (rnd (rnd (2 * f) - rnd (f ^ 2)))) \<le> rnd (1 / 2)"
    by (rule rounding_mono [OF R])
  then show "rnd (sqrt (rnd (rnd (2 * f) - rnd (f ^ 2)))) \<le> 1 / 2"
    by (simp only: rounding_half [OF R])
qed

subsection \<open>The registry\<close>

lemma models_distinct: "distinct (map fst (models rnd))"
  by (simp add: models_def)

text \<open>Every entry of the registry satisfies the side conditions of \<open>axes_ok\<close>.\<close>

lemma models_entries:
  "(k, m) \<in> set (models rnd) \<Longrightarrow>
     \<exists>A B. entry_a m = rnd A \<and> entry_b m = rnd B \<and> 1 \<le> B \<and> B \<le> A \<and> A \<le> 2 ^ 52 \<and>
        8 * (A - B + 2) \<le> B - 1"
  unfolding models_def
  apply (simp only: set_simps insert_iff empty_iff prod.inject)
  apply (elim disjE conjE FalseE)
  apply (simp_all only: entry.simps)
  apply (intro exI conjI, rule refl, rule refl, simp, simp, simp, simp)+
  done

subsection \<open>The constructor\<close>

lemma init_unregistered:
  "model_id \<notin> fst ` set (models rnd) \<Longrightarrow>
     Ellipsoid_init rnd self model_id =
       Inl (NotImplementedError (model_id @
         '' model not implemented, let us know and we will add it (or make a pull request)''))"
  by (simp add: Ellipsoid_init_def map_of_eq_None_iff [THEN iffD2])

lemma init_Inr:
  assumes "Ellipsoid_init rnd self model_id = Inr e"
  shows "\<exists>m. map_of (models rnd) model_id = Some m \<and>
           float_truediv rnd (float_sub rnd (entry_a m) (entry_b m)) (entry_a m) = Inr (flattening e) \<and>
           float_truediv rnd (float_sub rnd (entry_a m) (entry_b m))
              (float_add rnd (entry_a m) (entry_b m)) = Inr (thirdflattening e) \<and>
           math_sqrt rnd (float_sub rnd (float_mul rnd 2 (flattening e))
              (float_pow rnd (flattening e) 2)) = Inr (eccentricity e) \<and>
           e = self\<lparr>model := model_id, name := entry_name m,
                 semimajor_axis := entry_a m, semiminor_axis := entry_b m,
                 flattening := flattening e, thirdflattening := thirdflattening e,
                 eccentricity := eccentricity e\<rparr>"
  using assms
  by (auto simp: Ellipsoid_init_def Let_def split: option.splits sum.splits)

lemma init_registered:
  assumes R: "rounding rnd" and key: "map_of (models rnd) model_id = Some m"
  shows "Ellipsoid_init rnd self model_id =
     Inr (self\<lparr>model := model_id, name := entry_name m,
            semimajor_axis := entry_a m, semiminor_axis := entry_b m,
            flattening := rnd (rnd (entry_a m - entry_b m) / entry_a m),
            thirdflattening := rnd (rnd (entry_a m - entry_b m) / rnd (entry_a m + entry_b m)),
            eccentricity := rnd (sqrt (rnd (rnd (2 * rnd (rnd (entry_a m - entry_b m) / entry_a m))
               - rnd ((rnd (rnd (entry_a m - entry_b m) / entry_a m)) ^ 2))))\<rparr>)"
proof -
  from key have "(model_id, m) \<in> set (models rnd)" by (rule map_of_SomeD)
  then obtain A B where ab: "entry_a m = rnd A" "entry_b m = rnd B"
    and side: "1 \<le> B" "B \<le> A" "A \<le> 2 ^ 52" "8 * (A - B + 2) \<le> B - 1"
    using models_entries by blast
  note ax = axes_ok [OF R side]
  define f where "f = rnd (rnd (rnd A - rnd B) / rnd A)"
  have a0: "rnd A \<noteq> 0" using ax(1,2) by linarith
  have s0: "rnd (rnd A + rnd B) \<noteq> 0" using ax(6) by linarith
  have ff: "rnd f = f" by (simp add: f_def rounding_idem [OF R])
  have d0: "\<not> rnd (rnd (2 * f) - rnd (f ^ 2)) < 0"
    using ecc_ok(1) [OF R _ _ ff] ax(4,5) by (simp add: f_def not_less)
  show ?thesis
    using a0 s0 d0
    by (simp add: Ellipsoid_init_def key ab float_truediv_def float_sub_def float_add_def
        float_mul_def float_pow_def math_sqrt_def f_def)
qed

text \<open>The keys of the registry; they do not depend on the rounding operator.\<close>

lemma models_keys:
  "fst ` set (models rnd) =
    {''maupertuis'', ''plessis'', ''everest1830'', ''everest1830m'', ''everest1967'', ''airy'',
     ''bessel'', ''clarke1866'', ''clarke1878'', ''clarke1860'', ''helmert'', ''hayford'',
     ''international1924'', ''krassovsky1940'', ''wgs66'', ''australian'', ''international1967'',
     ''grs67'', ''sa1969'', ''wgs72'', ''grs80'', ''wgs84'', ''iers1989'', ''pz90.11'',
     ''iers2003'', ''gsk2011'', ''mercury'', ''venus'', ''moon'', ''mars'', ''jupyter'', ''io'',
     ''saturn'', ''uranus'', ''neptune'', ''pluto''}"
  by (simp add: models_def)

text \<open>Every entry but Io's has axes of at least 1188000 (Pluto's).\<close>

lemma models_others:
  "(k, m) \<in> set (models rnd) \<Longrightarrow> k \<noteq> ''io'' \<Longrightarrow>
     \<exists>A B. entry_a m = rnd A \<and> entry_b m = rnd B \<and> 1188000 \<le> B \<and> B \<le> A"
  unfolding models_def
  apply (simp only: set_simps insert_iff empty_iff prod.inject)
  apply (elim disjE conjE FalseE)
  apply (simp_all only: entry.simps)
  apply ((intro exI conjI, rule refl, rule refl, simp, simp) | simp)+
  done

lemma key_entry:
  assumes "model_id \<in> fst ` set (models rnd)"
  obtains m A B where "map_of (models rnd) model_id = Some m"
    and "entry_a m = rnd A" and "entry_b m = rnd B"
    and "1 \<le> B" and "B \<le> A" and "A \<le> 2 ^ 52" and "8 * (A - B + 2) \<le> B - 1"
proof -
  from assms obtain m where m: "map_of (models rnd) model_id = Some m"
    by (metis map_of_eq_None_iff not_Some_eq)
  then have "(model_id, m) \<in> set (models rnd)" by (rule map_of_SomeD)
  from models_entries [OF this] m that show thesis by blast
qed

text \<open>
  With a rounding operator as above the constructor succeeds on every key, and the
  attributes of the object it returns are as follows.
\<close>

lemma registered_fields:
  assumes R: "rounding rnd" and m: "map_of (models rnd) model_id = Some m"
  obtains e where "Ellipsoid_init rnd self model_id = Inr e"
    and "model e = model_id" and "name e = entry_name m"
    and "semimajor_axis e = entry_a m" and "semiminor_axis e = entry_b m"
    and "flattening e = rnd (rnd (entry_a m - entry_b m) / entry_a m)"
    and "thirdflattening e = rnd (rnd (entry_a m - entry_b m) / rnd (entry_a m + entry_b m))"
    and "eccentricity e =
      rnd (sqrt (rnd (rnd (2 * rnd (rnd (entry_a m - entry_b m) / entry_a m))
        - rnd ((rnd (rnd (entry_a m - entry_b m) / entry_a m)) ^ 2))))"
    and "Ellipsoid.more e = Ellipsoid.more self"
  by (rule that [OF init_registered [OF R m]]) simp_all

lemma init_key:
  assumes "rounding rnd" and "model_id \<in> fst ` set (models rnd)"
  shows "\<exists>e. Ellipsoid_init rnd self model_id = Inr e"
proof -
  from assms(2) obtain m where "map_of (models rnd) model_id = Some m"
    by (metis map_of_eq_None_iff not_Some_eq)
  from init_registered [OF assms(1) this] show ?thesis by blast
qed

subsection \<open>The call with an optional argument\<close>

lemma new_Some: "Ellipsoid_new rnd self (Some model_id) = Ellipsoid_init rnd self model_id"
  by (simp add: Ellipsoid_new_def)

lemma new_Inr:
  assumes "Ellipsoid_new rnd self arg = Inr e"
  obtains model_id and m :: entry where
    "model_id = (case arg of None \<Rightarrow> ''wgs84'' | Some k \<Rightarrow> k)"
    and "map_of (models rnd) model_id = Some m"
    and "model e = model_id" and "name e = entry_name m"
    and "semimajor_axis e = entry_a m" and "semiminor_axis e = entry_b m"
    and "float_truediv rnd (float_sub rnd (entry_a m) (entry_b m)) (entry_a m)
           = Inr (flattening e)"
    and "float_truediv rnd (float_sub rnd (entry_a m) (entry_b m))
           (float_add rnd (entry_a m) (entry_b m)) = Inr (thirdflattening e)"
    and "math_sqrt rnd (float_sub rnd (float_mul rnd 2 (flattening e))
           (float_pow rnd (flattening e) 2)) = Inr (eccentricity e)"
    and "Ellipsoid.more e = Ellipsoid.more self"
proof -
  define model_id where "model_id = (case arg of None \<Rightarrow> ''wgs84'' | Some k \<Rightarrow> k)"
  from assms have i: "Ellipsoid_init rnd self model_id = Inr e"
    by (simp add: Ellipsoid_new_def model_id_def)
  from init_Inr [OF i] obtain m :: entry where m: "map_of (models rnd) model_id = Some m"
    and f: "float_truediv rnd (float_sub rnd (entry_a m) (entry_b m)) (entry_a m)
           = Inr (flattening e)"
    and n: "float_truediv rnd (float_sub rnd (entry_a m) (entry_b m))
           (float_add rnd (entry_a m) (entry_b m)) = Inr (thirdflattening e)"
    and c: "math_sqrt rnd (float_sub rnd (float_mul rnd 2 (flattening e))
           (float_pow rnd (flattening e) 2)) = Inr (eccentricity e)"
    and eq: "e = self\<lparr>model := model_id, name := entry_name m,
                 semimajor_axis := entry_a m, semiminor_axis := entry_b m,
                 flattening := flattening e, thirdflattening := thirdflattening e,
                 eccentricity := eccentricity e\<rparr>"
    by blast
  have "model e = model_id" "name e = entry_name m"
    "semimajor_axis e = entry_a m" "semiminor_axis e = entry_b m"
    "Ellipsoid.more e = Ellipsoid.more self"
    by (subst eq, simp)+
  with model_id_def m f n c show thesis by (intro that)
qed

lemma new_recompute:
  assumes "Ellipsoid_new rnd self arg = Inr e"
  shows
    "float_truediv rnd (float_sub rnd (semimajor_axis e) (semiminor_axis e)) (semimajor_axis e)
       = Inr (flattening e)"
    and "float_truediv rnd (float_sub rnd (semimajor_axis e) (semiminor_axis e))
        (float_add rnd (semimajor_axis e) (semiminor_axis e))
       = Inr (thirdflattening e)"
    and "math_sqrt rnd (float_sub rnd (float_mul rnd 2 (flattening e))
        (float_pow rnd (flattening e) 2))
       = Inr (eccentricity e)"
  using assms by (elim new_Inr, simp)+

lemma new_Inl:
  assumes "Ellipsoid_new rnd self arg = Inl err"
  shows "Ellipsoid_new rnd self' arg = Inl err"
  using assms
  by (auto simp: Ellipsoid_new_def Ellipsoid_init_def Let_def split: option.splits sum.splits)

lemma new_Inr_other:
  assumes "Ellipsoid_new rnd self arg = Inr e"
  obtains e' where "Ellipsoid_new rnd self' arg = Inr e'"
    and "model e' = model e" and "name e' = name e"
    and "semimajor_axis e' = semimajor_axis e" and "semiminor_axis e' = semiminor_axis e"
    and "flattening e' = flattening e" and "thirdflattening e' = thirdflattening e"
    and "eccentricity e' = eccentricity e"
    and "Ellipsoid.more e' = Ellipsoid.more self'"
    and "Ellipsoid.more e = Ellipsoid.more self"
proof -
  from assms have "\<exists>e'. Ellipsoid_new rnd self' arg = Inr e' \<and>
     model e' = model e \<and> name e' = name e \<and>
     semimajor_axis e' = semimajor_axis e \<and> semiminor_axis e' = semiminor_axis e \<and>
     flattening e' = flattening e \<and> thirdflattening e' = thirdflattening e \<and>
     eccentricity e' = eccentricity e \<and>
     Ellipsoid.more e' = Ellipsoid.more self' \<and> Ellipsoid.more e = Ellipsoid.more self"
    by (auto simp: Ellipsoid_new_def Ellipsoid_init_def Let_def split: option.splits sum.splits)
  then show thesis using that by blast
qed

subsection \<open>The WGS-84 ellipsoid in binary64\<close>

text \<open>
  The constructor evaluated on \<^verbatim>\<open>"wgs84"\<close> with \<open>binary64\<close> rounding, step by step. The
  results are the floats that Python prints as \<^verbatim>\<open>6356752.31424518\<close> (semi-minor axis),
  \<^verbatim>\<open>0.0033528106647473664\<close> (flattening), \<^verbatim>\<open>0.0016792203863836474\<close> (third flattening) and
  \<^verbatim>\<open>0.0818191908426201\<close> (eccentricity). The sum of the axes is a tie, rounded to even.
\<close>

lemma wgs84_a: "binary64 6378137.0 = 6378137"
  using binary64_dyadic [of 6378137 0] by simp

lemma wgs84_b: "binary64 6356752.31424518 = 6825510824613841 / 2 ^ 30"
  using binary64_eval [of "6356752.31424518" 30 6825510824613841] by simp

lemma wgs84_sub: "binary64 (6378137 - 6825510824613841 / 2 ^ 30) = 22961631488047 / 2 ^ 30"
  using binary64_dyadic [of 22961631488047 30] by simp

lemma wgs84_f:
  "binary64 (22961631488047 / 2 ^ 30 / 6378137) = 7731055032524833 / 2 ^ 61"
  using binary64_eval [of "22961631488047 / 2 ^ 30 / 6378137" 61 7731055032524833] by simp

lemma wgs84_add:
  "binary64 (6378137 + 6825510824613841 / 2 ^ 30) = 6836991640357864 / 2 ^ 29"
  using binary64_eval [of "6378137 + 6825510824613841 / 2 ^ 30" 29 6836991640357864] by simp

lemma wgs84_n:
  "binary64 (22961631488047 / 2 ^ 30 / (6836991640357864 / 2 ^ 29)) = 7744037177743703 / 2 ^ 62"
  using binary64_eval [of "22961631488047 / 2 ^ 30 / (6836991640357864 / 2 ^ 29)" 62 7744037177743703] by simp

lemma wgs84_2f: "binary64 (2 * (7731055032524833 / 2 ^ 61)) = 7731055032524833 / 2 ^ 60"
  using binary64_dyadic [of 7731055032524833 60] by simp

lemma wgs84_sq: "binary64 ((7731055032524833 / 2 ^ 61)\<^sup>2) = 6635715523276303 / 2 ^ 69"
  using binary64_eval [of "(7731055032524833 / 2 ^ 61)\<^sup>2" 69 6635715523276303]
  by (simp add: power_divide)

lemma wgs84_d:
  "binary64 (7731055032524833 / 2 ^ 60 - 6635715523276303 / 2 ^ 69) = 7718094650643434 / 2 ^ 60"
  using binary64_eval [of "7731055032524833 / 2 ^ 60 - 6635715523276303 / 2 ^ 69" 60 7718094650643434] by simp

lemma wgs84_e: "binary64 (sqrt (7718094650643434 / 2 ^ 60)) = 5895694038249270 / 2 ^ 56"
  using binary64_sqrt_eval [of "7718094650643434 / 2 ^ 60" 56 5895694038249270]
  by (simp add: power_divide)

lemma wgs84_binary64:
  "Ellipsoid_new binary64 self (Some ''wgs84'') =
     Inr (self\<lparr>model := ''wgs84'', name := ''WGS-84 (1984)'',
            semimajor_axis := 6378137, semiminor_axis := 6825510824613841 / 2 ^ 30,
            flattening := 7731055032524833 / 2 ^ 61,
            thirdflattening := 7744037177743703 / 2 ^ 62,
            eccentricity := 5895694038249270 / 2 ^ 56\<rparr>)"
proof -
  have k: "map_of (models binary64) ''wgs84'' =
      Some \<lparr>entry_name = ''WGS-84 (1984)'', entry_a = binary64 6378137.0,
        entry_b = binary64 6356752.31424518\<rparr>"
    by (simp add: models_def)
  show ?thesis
    unfolding new_Some init_registered [OF rounding_binary64 k]
    by (simp only: entry.select_convs wgs84_a wgs84_b wgs84_sub wgs84_f wgs84_add wgs84_n
        wgs84_2f wgs84_sq wgs84_d wgs84_e)
qed

section \<open>The claims\<close>

text \<open>
  C1. The registry maps \<^verbatim>\<open>wgs84\<close>, \<^verbatim>\<open>grs80\<close>, \<^verbatim>\<open>wgs72\<close>, \<^verbatim>\<open>mars\<close> and \<^verbatim>\<open>moon\<close> to the
  axes the specification lists, written as the float literals of the source, and the
  constructor called with each of these identifiers returns an object whose
  \<open>semimajor_axis\<close> and \<open>semiminor_axis\<close> are these two floats.
\<close>

theorem registry_named_axes:
  assumes "rounding rnd"
  shows
    "map_of (models rnd) ''wgs84'' =
        Some \<lparr>entry_name = ''WGS-84 (1984)'', entry_a = rnd 6378137.0, entry_b = rnd 6356752.31424518\<rparr> \<and>
     map_of (models rnd) ''grs80'' =
        Some \<lparr>entry_name = ''GRS-80 (1979)'', entry_a = rnd 6378137.0, entry_b = rnd 6356752.31414036\<rparr> \<and>
     map_of (models rnd) ''wgs72'' =
        Some \<lparr>entry_name = ''WGS-72 (1972)'', entry_a = rnd 6378135.0, entry_b = rnd 6356750.52001609\<rparr> \<and>
     map_of (models rnd) ''mars'' =
        Some \<lparr>entry_name = ''Mars'', entry_a = rnd 3396900.0, entry_b = rnd 3376097.80585952\<rparr> \<and>
     map_of (models rnd) ''moon'' =
        Some \<lparr>entry_name = ''Moon'', entry_a = rnd 1738100.0, entry_b = rnd 1736000.0\<rparr> \<and>
     (\<exists>e. Ellipsoid_new rnd self (Some ''wgs84'') = Inr e \<and>
        semimajor_axis e = rnd 6378137.0 \<and> semiminor_axis e = rnd 6356752.31424518) \<and>
     (\<exists>e. Ellipsoid_new rnd self (Some ''grs80'') = Inr e \<and>
        semimajor_axis e = rnd 6378137.0 \<and> semiminor_axis e = rnd 6356752.31414036) \<and>
     (\<exists>e. Ellipsoid_new rnd self (Some ''wgs72'') = Inr e \<and>
        semimajor_axis e = rnd 6378135.0 \<and> semiminor_axis e = rnd 6356750.52001609) \<and>
     (\<exists>e. Ellipsoid_new rnd self (Some ''mars'') = Inr e \<and>
        semimajor_axis e = rnd 3396900.0 \<and> semiminor_axis e = rnd 3376097.80585952) \<and>
     (\<exists>e. Ellipsoid_new rnd self (Some ''moon'') = Inr e \<and>
        semimajor_axis e = rnd 1738100.0 \<and> semiminor_axis e = rnd 1736000.0)"
proof -
  have k1: "map_of (models rnd) ''wgs84'' =
        Some \<lparr>entry_name = ''WGS-84 (1984)'', entry_a = rnd 6378137.0, entry_b = rnd 6356752.31424518\<rparr>"
    by (simp add: models_def)
  have k2: "map_of (models rnd) ''grs80'' =
        Some \<lparr>entry_name = ''GRS-80 (1979)'', entry_a = rnd 6378137.0, entry_b = rnd 6356752.31414036\<rparr>"
    by (simp add: models_def)
  have k3: "map_of (models rnd) ''wgs72'' =
        Some \<lparr>entry_name = ''WGS-72 (1972)'', entry_a = rnd 6378135.0, entry_b = rnd 6356750.52001609\<rparr>"
    by (simp add: models_def)
  have k4: "map_of (models rnd) ''mars'' =
        Some \<lparr>entry_name = ''Mars'', entry_a = rnd 3396900.0, entry_b = rnd 3376097.80585952\<rparr>"
    by (simp add: models_def)
  have k5: "map_of (models rnd) ''moon'' =
        Some \<lparr>entry_name = ''Moon'', entry_a = rnd 1738100.0, entry_b = rnd 1736000.0\<rparr>"
    by (simp add: models_def)
  note r = init_registered [OF assms, of _ _ self]
  show ?thesis
    unfolding Ellipsoid_new_def option.case
    by (intro conjI k1 k2 k3 k4 k5)
       (simp_all only: r [OF k1] r [OF k2] r [OF k3] r [OF k4] r [OF k5], simp_all)
qed

theorem registry_named_axes_witness:
  "rounding binary64 \<and>
   (\<exists>e. Ellipsoid_new binary64
      \<lparr>model = [], name = [], semimajor_axis = 0, semiminor_axis = 0, flattening = 0,
       thirdflattening = 0, eccentricity = 0\<rparr> (Some ''wgs84'') = Inr e \<and>
      semimajor_axis e = binary64 6378137.0 \<and>
      semiminor_axis e = binary64 6356752.31424518 \<and>
      e = \<lparr>model = ''wgs84'', name = ''WGS-84 (1984)'', semimajor_axis = 6378137,
           semiminor_axis = 6825510824613841 / 2 ^ 30,
           flattening = 7731055032524833 / 2 ^ 61,
           thirdflattening = 7744037177743703 / 2 ^ 62,
           eccentricity = 5895694038249270 / 2 ^ 56\<rparr>)"
proof -
  let ?s = "\<lparr>model = [], name = [], semimajor_axis = 0, semiminor_axis = 0, flattening = 0,
       thirdflattening = 0, eccentricity = 0\<rparr>"
  note r = rounding_binary64
  from registry_named_axes [OF r, of ?s] obtain e
    where e: "Ellipsoid_new binary64 ?s (Some ''wgs84'') = Inr e"
      and a: "semimajor_axis e = binary64 6378137.0"
      and b: "semiminor_axis e = binary64 6356752.31424518"
    by blast
  from e have "e = \<lparr>model = ''wgs84'', name = ''WGS-84 (1984)'', semimajor_axis = 6378137,
           semiminor_axis = 6825510824613841 / 2 ^ 30,
           flattening = 7731055032524833 / 2 ^ 61,
           thirdflattening = 7744037177743703 / 2 ^ 62,
           eccentricity = 5895694038249270 / 2 ^ 56\<rparr>"
    unfolding wgs84_binary64 by simp
  with r e a b show ?thesis by blast
qed

text \<open>
  C2. The constructor fails with the \<^verbatim>\<open>NotImplementedError\<close> whose message starts with the
  identifier exactly when the identifier is not a key of the registry, and returns an object
  exactly when it is one. The comparison is that of strings, so that \<^verbatim>\<open>not-a-real-model\<close> and
  \<^verbatim>\<open>WGS84\<close> in capitals both fail.
\<close>

theorem unsupported_model_iff:
  assumes "rounding rnd"
  shows
    "(Ellipsoid_new rnd self (Some model_id) =
        Inl (NotImplementedError (model_id @
          '' model not implemented, let us know and we will add it (or make a pull request)''))
      \<longleftrightarrow> model_id \<notin> fst ` set (models rnd)) \<and>
     ((\<exists>e. Ellipsoid_new rnd self (Some model_id) = Inr e)
      \<longleftrightarrow> model_id \<in> fst ` set (models rnd)) \<and>
     Ellipsoid_new rnd self (Some ''not-a-real-model'') =
        Inl (NotImplementedError
          ''not-a-real-model model not implemented, let us know and we will add it (or make a pull request)'') \<and>
     Ellipsoid_new rnd self (Some ''WGS84'') =
        Inl (NotImplementedError
          ''WGS84 model not implemented, let us know and we will add it (or make a pull request)'')"
proof (intro conjI)
  show "(Ellipsoid_new rnd self (Some model_id) =
        Inl (NotImplementedError (model_id @
          '' model not implemented, let us know and we will add it (or make a pull request)'')))
      \<longleftrightarrow> model_id \<notin> fst ` set (models rnd)"
  proof (cases "model_id \<in> fst ` set (models rnd)")
    case True
    from init_key [OF assms True, of self] obtain e
      where "Ellipsoid_init rnd self model_id = Inr e" ..
    with True show ?thesis by (simp add: new_Some)
  next
    case False
    from init_unregistered [OF False, of self] False show ?thesis by (simp add: new_Some)
  qed
  show "(\<exists>e. Ellipsoid_new rnd self (Some model_id) = Inr e)
      \<longleftrightarrow> model_id \<in> fst ` set (models rnd)"
  proof (cases "model_id \<in> fst ` set (models rnd)")
    case True
    from init_key [OF assms True, of self] True show ?thesis by (simp add: new_Some)
  next
    case False
    from init_unregistered [OF False, of self] False show ?thesis by (simp add: new_Some)
  qed
  have "''not-a-real-model'' \<notin> fst ` set (models rnd)"
    by (simp add: models_keys)
  from init_unregistered [OF this]
  show "Ellipsoid_new rnd self (Some ''not-a-real-model'') =
        Inl (NotImplementedError
          ''not-a-real-model model not implemented, let us know and we will add it (or make a pull request)'')"
    by (simp add: new_Some)
  have "''WGS84'' \<notin> fst ` set (models rnd)"
    by (simp add: models_keys)
  from init_unregistered [OF this]
  show "Ellipsoid_new rnd self (Some ''WGS84'') =
        Inl (NotImplementedError
          ''WGS84 model not implemented, let us know and we will add it (or make a pull request)'')"
    by (simp add: new_Some)
qed

theorem unsupported_model_iff_witness:
  "rounding binary64 \<and>
   ''wgs84'' \<in> fst ` set (models binary64) \<and>
   (\<exists>e. Ellipsoid_new binary64
      \<lparr>model = [], name = [], semimajor_axis = 0, semiminor_axis = 0, flattening = 0,
       thirdflattening = 0, eccentricity = 0\<rparr> (Some ''wgs84'') = Inr e) \<and>
   ''wgs 84'' \<notin> fst ` set (models binary64) \<and>
   Ellipsoid_new binary64
      \<lparr>model = [], name = [], semimajor_axis = 0, semiminor_axis = 0, flattening = 0,
       thirdflattening = 0, eccentricity = 0\<rparr> (Some ''wgs 84'') =
     Inl (NotImplementedError
       ''wgs 84 model not implemented, let us know and we will add it (or make a pull request)'')"
proof -
  have r: "rounding binary64" by (rule rounding_binary64)
  have k: "''wgs84'' \<in> fst ` set (models binary64)" by (simp add: models_keys)
  have n: "''wgs 84'' \<notin> fst ` set (models binary64)" by (simp add: models_keys)
  show ?thesis
    using r k n
      unsupported_model_iff [OF r, of "\<lparr>model = [], name = [], semimajor_axis = 0,
        semiminor_axis = 0, flattening = 0, thirdflattening = 0, eccentricity = 0\<rparr>" "''wgs84''"]
      unsupported_model_iff [OF r, of "\<lparr>model = [], name = [], semimajor_axis = 0,
        semiminor_axis = 0, flattening = 0, thirdflattening = 0, eccentricity = 0\<rparr>" "''wgs 84''"]
    by simp
qed

text \<open>
  C3. The claim is that \<^verbatim>\<open>jupiter\<close> is a key of the registry. In the source the key of the
  entry named \<^verbatim>\<open>Jupiter\<close> is spelt \<^verbatim>\<open>jupyter\<close>, while the docstring of the class lists
  \<^verbatim>\<open>jupiter\<close>: the identifier \<^verbatim>\<open>jupiter\<close> is not a key, and the constructor raises
  \<^verbatim>\<open>NotImplementedError\<close> on it.
\<close>

theorem jupiter_unsupported:
  "''jupiter'' \<notin> fst ` set (models rnd) \<and>
   Ellipsoid_new rnd self (Some ''jupiter'') =
     Inl (NotImplementedError
       ''jupiter model not implemented, let us know and we will add it (or make a pull request)'') \<and>
   map_of (models rnd) ''jupyter'' =
     Some \<lparr>entry_name = ''Jupiter'', entry_a = rnd 71492000.0, entry_b = rnd 66770054.3475922\<rparr>"
proof (intro conjI)
  show n: "''jupiter'' \<notin> fst ` set (models rnd)"
    by (simp add: models_keys)
  from init_unregistered [OF n]
  show "Ellipsoid_new rnd self (Some ''jupiter'') =
     Inl (NotImplementedError
       ''jupiter model not implemented, let us know and we will add it (or make a pull request)'')"
    by (simp add: new_Some)
  show "map_of (models rnd) ''jupyter'' =
     Some \<lparr>entry_name = ''Jupiter'', entry_a = rnd 71492000.0, entry_b = rnd 66770054.3475922\<rparr>"
    by (simp add: models_def)
qed

text \<open>
  C4. For every key of the registry the constructor returns an object whose derived
  attributes are the values of the three formulas, evaluated in float arithmetic on the
  object's own axes: \<open>(a - b) / a\<close>, \<open>(a - b) / (a + b)\<close> and \<open>sqrt (2 * f - f ** 2)\<close> with
  \<open>f\<close> the flattening.
\<close>

theorem derived_fields_formulas:
  assumes "rounding rnd" and "model_id \<in> fst ` set (models rnd)"
  shows "\<exists>e. Ellipsoid_new rnd self (Some model_id) = Inr e \<and>
     float_truediv rnd (float_sub rnd (semimajor_axis e) (semiminor_axis e)) (semimajor_axis e)
       = Inr (flattening e) \<and>
     float_truediv rnd (float_sub rnd (semimajor_axis e) (semiminor_axis e))
        (float_add rnd (semimajor_axis e) (semiminor_axis e))
       = Inr (thirdflattening e) \<and>
     math_sqrt rnd (float_sub rnd (float_mul rnd 2 (flattening e)) (float_pow rnd (flattening e) 2))
       = Inr (eccentricity e)"
proof -
  from init_key [OF assms, of self] obtain e
    where e: "Ellipsoid_init rnd self model_id = Inr e" ..
  from init_Inr [OF e] obtain m :: entry where
    f: "float_truediv rnd (float_sub rnd (entry_a m) (entry_b m)) (entry_a m) = Inr (flattening e)"
    and n: "float_truediv rnd (float_sub rnd (entry_a m) (entry_b m))
              (float_add rnd (entry_a m) (entry_b m)) = Inr (thirdflattening e)"
    and c: "math_sqrt rnd (float_sub rnd (float_mul rnd 2 (flattening e))
              (float_pow rnd (flattening e) 2)) = Inr (eccentricity e)"
    and eq: "e = self\<lparr>model := model_id, name := entry_name m,
                 semimajor_axis := entry_a m, semiminor_axis := entry_b m,
                 flattening := flattening e, thirdflattening := thirdflattening e,
                 eccentricity := eccentricity e\<rparr>"
    by blast
  have a: "semimajor_axis e = entry_a m" by (subst eq) simp
  have b: "semiminor_axis e = entry_b m" by (subst eq) simp
  show ?thesis
    using e f n c by (simp add: new_Some a b)
qed

theorem derived_fields_formulas_witness:
  "rounding (\<lambda>x. x) \<and> ''grs80'' \<in> fst ` set (models (\<lambda>x. x)) \<and>
   (\<exists>e. Ellipsoid_new (\<lambda>x. x)
      \<lparr>model = [], name = [], semimajor_axis = 0, semiminor_axis = 0, flattening = 0,
       thirdflattening = 0, eccentricity = 0\<rparr> (Some ''grs80'') = Inr e \<and>
      flattening e = (semimajor_axis e - semiminor_axis e) / semimajor_axis e \<and>
      thirdflattening e =
        (semimajor_axis e - semiminor_axis e) / (semimajor_axis e + semiminor_axis e) \<and>
      eccentricity e = sqrt (2 * flattening e - (flattening e)\<^sup>2))"
proof -
  have r: "rounding (\<lambda>x. x)" by (rule rounding_id)
  have k: "''grs80'' \<in> fst ` set (models (\<lambda>x. x))" by (simp add: models_keys)
  from derived_fields_formulas [OF r k, of "\<lparr>model = [], name = [], semimajor_axis = 0,
    semiminor_axis = 0, flattening = 0, thirdflattening = 0, eccentricity = 0\<rparr>"] r k
  show ?thesis
    by (auto simp: float_truediv_def float_sub_def float_add_def float_mul_def float_pow_def
        math_sqrt_def split: if_splits)
qed

text \<open>
  C5. For every key of the registry the constructor returns an object with
  \<open>semimajor_axis \<ge> semiminor_axis > 0\<close>, \<open>0 \<le> flattening < 1\<close> and
  \<open>0 \<le> eccentricity < 1\<close>.
\<close>

theorem axes_and_shape_bounds:
  assumes "rounding rnd" and "model_id \<in> fst ` set (models rnd)"
  shows "\<exists>e. Ellipsoid_new rnd self (Some model_id) = Inr e \<and>
     semiminor_axis e \<le> semimajor_axis e \<and> 0 < semiminor_axis e \<and>
     0 \<le> flattening e \<and> flattening e < 1 \<and>
     0 \<le> eccentricity e \<and> eccentricity e < 1"
proof -
  note R = assms(1)
  from assms(2) obtain m A B where m: "map_of (models rnd) model_id = Some m"
    and ab: "entry_a m = rnd A" "entry_b m = rnd B"
    and side: "1 \<le> B" "B \<le> A" "A \<le> 2 ^ 52" "8 * (A - B + 2) \<le> B - 1"
    by (rule key_entry)
  note ax = axes_ok [OF R side]
  define f where "f = rnd (rnd (rnd A - rnd B) / rnd A)"
  have ff: "rnd f = f" by (simp add: f_def rounding_idem [OF R])
  have f0: "0 \<le> f" and f8: "f \<le> 1 / 8" using ax(4,5) by (simp_all add: f_def)
  note ec = ecc_ok [OF R f0 f8 ff]
  from R m obtain e where e: "Ellipsoid_init rnd self model_id = Inr e"
    and fields: "semimajor_axis e = rnd A" "semiminor_axis e = rnd B"
      "flattening e = f"
      "eccentricity e = rnd (sqrt (rnd (rnd (2 * f) - rnd (f ^ 2))))"
    unfolding f_def ab [symmetric] by (rule registered_fields)
  have "semiminor_axis e \<le> semimajor_axis e" "0 < semiminor_axis e"
    using ax(1,2) by (simp_all add: fields)
  moreover have "0 \<le> flattening e" "flattening e < 1"
    using f0 f8 by (simp_all add: fields)
  moreover have "0 \<le> eccentricity e" "eccentricity e < 1"
    using ec(2,3) by (simp_all add: fields)
  ultimately show ?thesis
    using e by (simp add: new_Some)
qed

theorem axes_and_shape_bounds_witness:
  "rounding binary64 \<and> ''wgs84'' \<in> fst ` set (models binary64) \<and>
   (\<exists>e. Ellipsoid_new binary64
      \<lparr>model = [], name = [], semimajor_axis = 0, semiminor_axis = 0, flattening = 0,
       thirdflattening = 0, eccentricity = 0\<rparr> (Some ''wgs84'') = Inr e \<and>
     semimajor_axis e = 6378137 \<and> semiminor_axis e = 6825510824613841 / 2 ^ 30 \<and>
     flattening e = 7731055032524833 / 2 ^ 61 \<and>
     eccentricity e = 5895694038249270 / 2 ^ 56 \<and>
     semiminor_axis e \<le> semimajor_axis e \<and> 0 < semiminor_axis e \<and>
     0 \<le> flattening e \<and> flattening e < 1 \<and>
     0 \<le> eccentricity e \<and> eccentricity e < 1)"
proof -
  let ?s = "\<lparr>model = [], name = [], semimajor_axis = 0, semiminor_axis = 0, flattening = 0,
       thirdflattening = 0, eccentricity = 0\<rparr>"
  note r = rounding_binary64
  have k: "''wgs84'' \<in> fst ` set (models binary64)" by (simp add: models_keys)
  from axes_and_shape_bounds [OF r k, of ?s] obtain e
    where e: "Ellipsoid_new binary64 ?s (Some ''wgs84'') = Inr e"
      and bounds: "semiminor_axis e \<le> semimajor_axis e" "0 < semiminor_axis e"
        "0 \<le> flattening e" "flattening e < 1" "0 \<le> eccentricity e" "eccentricity e < 1"
    by blast
  from e have "e = \<lparr>model = ''wgs84'', name = ''WGS-84 (1984)'', semimajor_axis = 6378137,
           semiminor_axis = 6825510824613841 / 2 ^ 30,
           flattening = 7731055032524833 / 2 ^ 61,
           thirdflattening = 7744037177743703 / 2 ^ 62,
           eccentricity = 5895694038249270 / 2 ^ 56\<rparr>"
    unfolding wgs84_binary64 by simp
  then have fields: "semimajor_axis e = 6378137" "semiminor_axis e = 6825510824613841 / 2 ^ 30"
     "flattening e = 7731055032524833 / 2 ^ 61" "eccentricity e = 5895694038249270 / 2 ^ 56"
    by simp_all
  from r k e fields bounds show ?thesis by blast
qed

text \<open>
  C6. For \<^verbatim>\<open>venus\<close> and \<^verbatim>\<open>pluto\<close> the two axes of the object are equal, and its flattening
  and eccentricity are exactly zero.
\<close>

theorem spheres:
  assumes "rounding rnd"
  shows
    "(\<exists>e. Ellipsoid_new rnd self (Some ''venus'') = Inr e \<and>
        semimajor_axis e = semiminor_axis e \<and> flattening e = 0 \<and> eccentricity e = 0) \<and>
     (\<exists>e. Ellipsoid_new rnd self (Some ''pluto'') = Inr e \<and>
        semimajor_axis e = semiminor_axis e \<and> flattening e = 0 \<and> eccentricity e = 0)"
proof -
  note R = assms
  note z = rounding_zero [OF R]
  have v: "map_of (models rnd) ''venus'' =
      Some \<lparr>entry_name = ''Venus'', entry_a = rnd 6051800.0, entry_b = rnd 6051800.0\<rparr>"
    by (simp add: models_def)
  have p: "map_of (models rnd) ''pluto'' =
      Some \<lparr>entry_name = ''Pluto'', entry_a = rnd 1188000.0, entry_b = rnd 1188000.0\<rparr>"
    by (simp add: models_def)
  from R v obtain e where "Ellipsoid_init rnd self ''venus'' = Inr e"
    and "semimajor_axis e = rnd 6051800.0" and "semiminor_axis e = rnd 6051800.0"
    and "flattening e = 0" and "eccentricity e = 0"
    by (rule registered_fields) (simp_all add: z)
  then have venus: "\<exists>e. Ellipsoid_new rnd self (Some ''venus'') = Inr e \<and>
        semimajor_axis e = semiminor_axis e \<and> flattening e = 0 \<and> eccentricity e = 0"
    by (simp add: new_Some)
  from R p obtain e where "Ellipsoid_init rnd self ''pluto'' = Inr e"
    and "semimajor_axis e = rnd 1188000.0" and "semiminor_axis e = rnd 1188000.0"
    and "flattening e = 0" and "eccentricity e = 0"
    by (rule registered_fields) (simp_all add: z)
  then have pluto: "\<exists>e. Ellipsoid_new rnd self (Some ''pluto'') = Inr e \<and>
        semimajor_axis e = semiminor_axis e \<and> flattening e = 0 \<and> eccentricity e = 0"
    by (simp add: new_Some)
  from venus pluto show ?thesis ..
qed

theorem spheres_witness:
  "rounding binary64 \<and>
   (\<exists>e. Ellipsoid_new binary64
      \<lparr>model = [], name = [], semimajor_axis = 1, semiminor_axis = 2, flattening = 3,
       thirdflattening = 4, eccentricity = 5\<rparr> (Some ''venus'') = Inr e \<and>
      semimajor_axis e = semiminor_axis e \<and> flattening e = 0 \<and> eccentricity e = 0) \<and>
   (\<exists>e. Ellipsoid_new binary64
      \<lparr>model = [], name = [], semimajor_axis = 1, semiminor_axis = 2, flattening = 3,
       thirdflattening = 4, eccentricity = 5\<rparr> (Some ''pluto'') = Inr e \<and>
      semimajor_axis e = semiminor_axis e \<and> flattening e = 0 \<and> eccentricity e = 0)"
proof -
  have r: "rounding binary64" by (rule rounding_binary64)
  from spheres [OF r, of "\<lparr>model = [], name = [], semimajor_axis = 1,
    semiminor_axis = 2, flattening = 3, thirdflattening = 4, eccentricity = 5\<rparr>"] r
  show ?thesis by simp
qed

text \<open>
  C7. The call without an argument is the call with the argument \<^verbatim>\<open>"wgs84"\<close>: the two
  results are equal, attribute for attribute.
\<close>

theorem default_model:
  "Ellipsoid_new rnd self None = Ellipsoid_new rnd self (Some ''wgs84'') \<and>
   Ellipsoid_new rnd self None = Ellipsoid_init rnd self ''wgs84''"
  by (simp add: Ellipsoid_new_def)

text \<open>
  C8. Round trip: for every object the constructor returns, evaluating the three formulas
  again on the stored axes gives the stored flattening, third flattening and eccentricity.
  Nothing else enters: two returned objects with the same axes, from whatever identifier
  and on whatever object the constructor ran, have the same derived attributes.
\<close>

theorem recompute_roundtrip:
  assumes "Ellipsoid_new rnd self arg = Inr e"
  shows
    "float_truediv rnd (float_sub rnd (semimajor_axis e) (semiminor_axis e)) (semimajor_axis e)
       = Inr (flattening e) \<and>
     float_truediv rnd (float_sub rnd (semimajor_axis e) (semiminor_axis e))
        (float_add rnd (semimajor_axis e) (semiminor_axis e))
       = Inr (thirdflattening e) \<and>
     math_sqrt rnd (float_sub rnd (float_mul rnd 2 (flattening e)) (float_pow rnd (flattening e) 2))
       = Inr (eccentricity e) \<and>
     (\<forall>(self' :: 'y Ellipsoid_scheme) arg' e'.
        Ellipsoid_new rnd self' arg' = Inr e' \<and>
        semimajor_axis e' = semimajor_axis e \<and> semiminor_axis e' = semiminor_axis e \<longrightarrow>
        flattening e' = flattening e \<and> thirdflattening e' = thirdflattening e \<and>
        eccentricity e' = eccentricity e)"
proof -
  note re = new_recompute [OF assms]
  have "flattening e' = flattening e \<and> thirdflattening e' = thirdflattening e \<and>
        eccentricity e' = eccentricity e"
    if "Ellipsoid_new rnd self' arg' = Inr e'"
      and "semimajor_axis e' = semimajor_axis e" and "semiminor_axis e' = semiminor_axis e"
    for self' :: "'y Ellipsoid_scheme" and arg' e'
    using re new_recompute [OF that(1)] that(2,3) by simp
  with re show ?thesis by blast
qed

theorem recompute_roundtrip_witness:
  "Ellipsoid_new (\<lambda>x. x)
      \<lparr>model = [], name = [], semimajor_axis = 0, semiminor_axis = 0, flattening = 0,
       thirdflattening = 0, eccentricity = 0\<rparr> (Some ''hayford'') =
    Inr \<lparr>model = ''hayford'', name = ''Hayford (1910)'', semimajor_axis = 6378388.0,
       semiminor_axis = 6356911.946,
       flattening = (6378388.0 - 6356911.946) / 6378388.0,
       thirdflattening = (6378388.0 - 6356911.946) / (6378388.0 + 6356911.946),
       eccentricity = sqrt (2 * ((6378388.0 - 6356911.946) / 6378388.0)
          - ((6378388.0 - 6356911.946) / 6378388.0)\<^sup>2)\<rparr> \<and>
   (\<exists>e'. Ellipsoid_new (\<lambda>x. x)
      \<lparr>model = ''x'', name = ''y'', semimajor_axis = 1, semiminor_axis = 2, flattening = 3,
       thirdflattening = 4, eccentricity = 5\<rparr> (Some ''international1924'') = Inr e' \<and>
      semimajor_axis e' = 6378388.0 \<and> semiminor_axis e' = 6356911.946 \<and>
      flattening e' = (6378388.0 - 6356911.946) / 6378388.0 \<and>
      thirdflattening e' = (6378388.0 - 6356911.946) / (6378388.0 + 6356911.946) \<and>
      eccentricity e' = sqrt (2 * ((6378388.0 - 6356911.946) / 6378388.0)
          - ((6378388.0 - 6356911.946) / 6378388.0)\<^sup>2))"
proof -
  have r: "rounding (\<lambda>x. x)" by (rule rounding_id)
  have h: "map_of (models (\<lambda>x. x)) ''hayford'' =
      Some \<lparr>entry_name = ''Hayford (1910)'', entry_a = 6378388.0, entry_b = 6356911.946\<rparr>"
    by (simp add: models_def)
  have i: "map_of (models (\<lambda>x. x)) ''international1924'' =
      Some \<lparr>entry_name = ''International (1924)'', entry_a = 6378388.0, entry_b = 6356911.946\<rparr>"
    by (simp add: models_def)
  let ?e = "\<lparr>model = ''hayford'', name = ''Hayford (1910)'', semimajor_axis = 6378388.0,
       semiminor_axis = 6356911.946,
       flattening = (6378388.0 - 6356911.946) / 6378388.0,
       thirdflattening = (6378388.0 - 6356911.946) / (6378388.0 + 6356911.946),
       eccentricity = sqrt (2 * ((6378388.0 - 6356911.946) / 6378388.0)
          - ((6378388.0 - 6356911.946) / 6378388.0)\<^sup>2)\<rparr>"
  have e: "Ellipsoid_new (\<lambda>x. x)
      \<lparr>model = [], name = [], semimajor_axis = 0, semiminor_axis = 0, flattening = 0,
       thirdflattening = 0, eccentricity = 0\<rparr> (Some ''hayford'') = Inr ?e"
    unfolding new_Some by (simp only: init_registered [OF r h]) simp
  from r i obtain e' where e': "Ellipsoid_init (\<lambda>x. x)
      \<lparr>model = ''x'', name = ''y'', semimajor_axis = 1, semiminor_axis = 2, flattening = 3,
       thirdflattening = 4, eccentricity = 5\<rparr> ''international1924'' = Inr e'"
    and ax: "semimajor_axis e' = 6378388.0" "semiminor_axis e' = 6356911.946"
    by (rule registered_fields) simp_all
  have e'N: "Ellipsoid_new (\<lambda>x. x)
      \<lparr>model = ''x'', name = ''y'', semimajor_axis = 1, semiminor_axis = 2, flattening = 3,
       thirdflattening = 4, eccentricity = 5\<rparr> (Some ''international1924'') = Inr e'"
    using e' by (simp add: new_Some)
  have ax': "semimajor_axis e' = semimajor_axis ?e" "semiminor_axis e' = semiminor_axis ?e"
    using ax by simp_all
  from recompute_roundtrip [OF e] e'N ax'
  have "flattening e' = flattening ?e \<and> thirdflattening e' = thirdflattening ?e \<and>
        eccentricity e' = eccentricity ?e"
    by blast
  then have d: "flattening e' = (6378388.0 - 6356911.946) / 6378388.0"
    "thirdflattening e' = (6378388.0 - 6356911.946) / (6378388.0 + 6356911.946)"
    "eccentricity e' = sqrt (2 * ((6378388.0 - 6356911.946) / 6378388.0)
          - ((6378388.0 - 6356911.946) / 6378388.0)\<^sup>2)"
    by (simp_all only: Ellipsoid.select_convs)
  from e e'N ax d show ?thesis by blast
qed

text \<open>
  C9. The constructor is a function of its argument: run on two different objects with the
  same argument, it either returns objects whose seven attributes are pairwise equal, or
  raises the same exception on both. It writes the seven attributes and nothing else: the
  rest of each object (the extension of the record) is as it was.
\<close>

theorem construct_pure:
  "(\<forall>e1. Ellipsoid_new rnd self1 arg = Inr e1 \<longrightarrow>
      (\<exists>e2. Ellipsoid_new rnd self2 arg = Inr e2 \<and>
         model e2 = model e1 \<and> name e2 = name e1 \<and>
         semimajor_axis e2 = semimajor_axis e1 \<and> semiminor_axis e2 = semiminor_axis e1 \<and>
         flattening e2 = flattening e1 \<and> thirdflattening e2 = thirdflattening e1 \<and>
         eccentricity e2 = eccentricity e1 \<and>
         Ellipsoid.more e2 = Ellipsoid.more self2 \<and> Ellipsoid.more e1 = Ellipsoid.more self1)) \<and>
   (\<forall>err. Ellipsoid_new rnd self1 arg = Inl err \<longrightarrow> Ellipsoid_new rnd self2 arg = Inl err)"
proof (intro conjI allI impI)
  fix e1 assume "Ellipsoid_new rnd self1 arg = Inr e1"
  then obtain e2 where "Ellipsoid_new rnd self2 arg = Inr e2"
    and "model e2 = model e1" and "name e2 = name e1"
    and "semimajor_axis e2 = semimajor_axis e1" and "semiminor_axis e2 = semiminor_axis e1"
    and "flattening e2 = flattening e1" and "thirdflattening e2 = thirdflattening e1"
    and "eccentricity e2 = eccentricity e1"
    and "Ellipsoid.more e2 = Ellipsoid.more self2"
    and "Ellipsoid.more e1 = Ellipsoid.more self1"
    by (rule new_Inr_other)
  then show "\<exists>e2. Ellipsoid_new rnd self2 arg = Inr e2 \<and>
         model e2 = model e1 \<and> name e2 = name e1 \<and>
         semimajor_axis e2 = semimajor_axis e1 \<and> semiminor_axis e2 = semiminor_axis e1 \<and>
         flattening e2 = flattening e1 \<and> thirdflattening e2 = thirdflattening e1 \<and>
         eccentricity e2 = eccentricity e1 \<and>
         Ellipsoid.more e2 = Ellipsoid.more self2 \<and> Ellipsoid.more e1 = Ellipsoid.more self1"
    by blast
next
  fix err assume "Ellipsoid_new rnd self1 arg = Inl err"
  then show "Ellipsoid_new rnd self2 arg = Inl err" by (rule new_Inl)
qed

theorem construct_pure_witness:
  "Ellipsoid_new (\<lambda>x. x)
      \<lparr>model = [], name = [], semimajor_axis = 0, semiminor_axis = 0, flattening = 0,
       thirdflattening = 0, eccentricity = 0\<rparr> (Some ''moon'') =
    Inr \<lparr>model = ''moon'', name = ''Moon'', semimajor_axis = 1738100,
       semiminor_axis = 1736000, flattening = 21 / 17381, thirdflattening = 21 / 34741,
       eccentricity = sqrt (2 * (21 / 17381) - (21 / 17381)\<^sup>2)\<rparr> \<and>
   (\<exists>e2. Ellipsoid_new (\<lambda>x. x)
      \<lparr>model = ''x'', name = ''y'', semimajor_axis = 1, semiminor_axis = 2, flattening = 3,
       thirdflattening = 4, eccentricity = 5\<rparr> (Some ''moon'') = Inr e2 \<and>
      model e2 = ''moon'' \<and> name e2 = ''Moon'' \<and> semimajor_axis e2 = 1738100 \<and>
      semiminor_axis e2 = 1736000 \<and> flattening e2 = 21 / 17381 \<and>
      thirdflattening e2 = 21 / 34741 \<and>
      eccentricity e2 = sqrt (2 * (21 / 17381) - (21 / 17381)\<^sup>2)) \<and>
   Ellipsoid_new (\<lambda>x. x)
      \<lparr>model = [], name = [], semimajor_axis = 0, semiminor_axis = 0, flattening = 0,
       thirdflattening = 0, eccentricity = 0\<rparr> (Some ''Moon'') =
    Inl (NotImplementedError
      ''Moon model not implemented, let us know and we will add it (or make a pull request)'') \<and>
   Ellipsoid_new (\<lambda>x. x)
      \<lparr>model = ''x'', name = ''y'', semimajor_axis = 1, semiminor_axis = 2, flattening = 3,
       thirdflattening = 4, eccentricity = 5\<rparr> (Some ''Moon'') =
    Inl (NotImplementedError
      ''Moon model not implemented, let us know and we will add it (or make a pull request)'')"
proof -
  let ?s1 = "\<lparr>model = [], name = [], semimajor_axis = 0, semiminor_axis = 0, flattening = 0,
       thirdflattening = 0, eccentricity = 0\<rparr>"
  let ?s2 = "\<lparr>model = ''x'', name = ''y'', semimajor_axis = 1, semiminor_axis = 2,
       flattening = 3, thirdflattening = 4, eccentricity = 5\<rparr>"
  let ?e = "\<lparr>model = ''moon'', name = ''Moon'', semimajor_axis = 1738100,
       semiminor_axis = 1736000, flattening = 21 / 17381, thirdflattening = 21 / 34741,
       eccentricity = sqrt (2 * (21 / 17381) - (21 / 17381)\<^sup>2)\<rparr>"
  let ?err = "NotImplementedError
      ''Moon model not implemented, let us know and we will add it (or make a pull request)''"
  have r: "rounding (\<lambda>x. x)" by (rule rounding_id)
  have k: "map_of (models (\<lambda>x. x)) ''moon'' =
      Some \<lparr>entry_name = ''Moon'', entry_a = 1738100, entry_b = 1736000\<rparr>"
    by (simp add: models_def)
  have e: "Ellipsoid_new (\<lambda>x. x) ?s1 (Some ''moon'') = Inr ?e"
    unfolding new_Some by (simp only: init_registered [OF r k]) simp
  have "''Moon'' \<notin> fst ` set (models (\<lambda>x. x))" by (simp add: models_keys)
  from init_unregistered [OF this, of ?s1]
  have f: "Ellipsoid_new (\<lambda>x. x) ?s1 (Some ''Moon'') = Inl ?err"
    by (simp add: new_Some)
  from construct_pure [of "\<lambda>x. x" ?s1 "Some ''moon''" ?s2] e
  have "\<exists>e2. Ellipsoid_new (\<lambda>x. x) ?s2 (Some ''moon'') = Inr e2 \<and>
         model e2 = model ?e \<and> name e2 = name ?e \<and>
         semimajor_axis e2 = semimajor_axis ?e \<and> semiminor_axis e2 = semiminor_axis ?e \<and>
         flattening e2 = flattening ?e \<and> thirdflattening e2 = thirdflattening ?e \<and>
         eccentricity e2 = eccentricity ?e"
    by blast
  then have e2: "\<exists>e2. Ellipsoid_new (\<lambda>x. x) ?s2 (Some ''moon'') = Inr e2 \<and>
      model e2 = ''moon'' \<and> name e2 = ''Moon'' \<and> semimajor_axis e2 = 1738100 \<and>
      semiminor_axis e2 = 1736000 \<and> flattening e2 = 21 / 17381 \<and>
      thirdflattening e2 = 21 / 34741 \<and>
      eccentricity e2 = sqrt (2 * (21 / 17381) - (21 / 17381)\<^sup>2)"
    by (simp only: Ellipsoid.select_convs)
  from construct_pure [of "\<lambda>x. x" ?s1 "Some ''Moon''" ?s2] f
  have f2: "Ellipsoid_new (\<lambda>x. x) ?s2 (Some ''Moon'') = Inl ?err"
    by blast
  from e e2 f f2 show ?thesis by blast
qed

text \<open>
  C10. The axes of \<^verbatim>\<open>io\<close> are the floats \<^verbatim>\<open>1829.7\<close> and \<^verbatim>\<open>1815.8\<close>, below 1830, while both
  axes of every other object the constructor returns are at least 1188000, more than six
  hundred times Io's semi-major axis.
\<close>

theorem io_axes:
  assumes "rounding rnd"
  shows
    "map_of (models rnd) ''io'' =
        Some \<lparr>entry_name = ''Io'', entry_a = rnd 1829.7, entry_b = rnd 1815.8\<rparr> \<and>
     (\<exists>e. Ellipsoid_new rnd self (Some ''io'') = Inr e \<and>
        semimajor_axis e = rnd 1829.7 \<and> semiminor_axis e = rnd 1815.8) \<and>
     rnd 1815.8 \<le> rnd 1829.7 \<and> rnd 1829.7 \<le> 1830 \<and>
     (\<forall>model_id (self' :: 'y Ellipsoid_scheme) e'.
        model_id \<noteq> ''io'' \<and> Ellipsoid_new rnd self' (Some model_id) = Inr e' \<longrightarrow>
        1188000 \<le> semiminor_axis e' \<and> semiminor_axis e' \<le> semimajor_axis e' \<and>
        600 * rnd 1829.7 < semiminor_axis e')"
proof -
  note R = assms
  have k: "map_of (models rnd) ''io'' =
        Some \<lparr>entry_name = ''Io'', entry_a = rnd 1829.7, entry_b = rnd 1815.8\<rparr>"
    by (simp add: models_def)
  from R k obtain e where "Ellipsoid_init rnd self ''io'' = Inr e"
    and "semimajor_axis e = rnd 1829.7" and "semiminor_axis e = rnd 1815.8"
    by (rule registered_fields) simp_all
  then have io: "\<exists>e. Ellipsoid_new rnd self (Some ''io'') = Inr e \<and>
        semimajor_axis e = rnd 1829.7 \<and> semiminor_axis e = rnd 1815.8"
    by (simp add: new_Some)
  have ba: "rnd 1815.8 \<le> rnd 1829.7" by (intro rounding_mono [OF R]) simp
  have "rnd 1829.7 \<le> rnd (of_int 1830)" by (intro rounding_mono [OF R]) simp
  then have hi: "rnd 1829.7 \<le> 1830" using rounding_int [OF R, of 1830] by simp
  have others: "1188000 \<le> semiminor_axis e' \<and> semiminor_axis e' \<le> semimajor_axis e' \<and>
        600 * rnd 1829.7 < semiminor_axis e'"
    if ne: "model_id \<noteq> ''io''" and e': "Ellipsoid_new rnd self' (Some model_id) = Inr e'"
    for model_id and self' :: "'y Ellipsoid_scheme" and e'
  proof -
    from e' obtain m :: entry where m: "map_of (models rnd) model_id = Some m"
      and ax: "semimajor_axis e' = entry_a m" "semiminor_axis e' = entry_b m"
      by (elim new_Inr) simp
    from m have "(model_id, m) \<in> set (models rnd)" by (rule map_of_SomeD)
    from models_others [OF this ne] obtain A B
      where ab: "entry_a m = rnd A" "entry_b m = rnd B" and lo: "1188000 \<le> B" and BA: "B \<le> A"
      by blast
    have "rnd (of_int 1188000) \<le> rnd B" using lo by (intro rounding_mono [OF R]) simp
    then have b: "1188000 \<le> rnd B" using rounding_int [OF R, of 1188000] by simp
    have "rnd B \<le> rnd A" by (rule rounding_mono [OF R BA])
    with b hi show ?thesis by (simp add: ax ab)
  qed
  from k io ba hi others show ?thesis by blast
qed

theorem io_axes_witness:
  "rounding (\<lambda>x. x) \<and>
   (\<exists>e. Ellipsoid_new (\<lambda>x. x)
      \<lparr>model = [], name = [], semimajor_axis = 0, semiminor_axis = 0, flattening = 0,
       thirdflattening = 0, eccentricity = 0\<rparr> (Some ''io'') = Inr e \<and>
      semimajor_axis e = 1829.7 \<and> semiminor_axis e = 1815.8) \<and>
   ''pluto'' \<noteq> ''io'' \<and>
   (\<exists>e'. Ellipsoid_new (\<lambda>x. x)
      \<lparr>model = [], name = [], semimajor_axis = 0, semiminor_axis = 0, flattening = 0,
       thirdflattening = 0, eccentricity = 0\<rparr> (Some ''pluto'') = Inr e' \<and>
      semiminor_axis e' = 1188000 \<and> 600 * 1829.7 < semiminor_axis e')"
proof -
  let ?s = "\<lparr>model = [], name = [], semimajor_axis = 0, semiminor_axis = 0, flattening = 0,
       thirdflattening = 0, eccentricity = 0\<rparr>"
  have r: "rounding (\<lambda>x. x)" by (rule rounding_id)
  note t = io_axes [OF r, of ?s]
  from t [THEN conjunct2, THEN conjunct1]
  have io: "\<exists>e. Ellipsoid_new (\<lambda>x. x) ?s (Some ''io'') = Inr e \<and>
      semimajor_axis e = 1829.7 \<and> semiminor_axis e = 1815.8" .
  have p: "map_of (models (\<lambda>x. x)) ''pluto'' =
      Some \<lparr>entry_name = ''Pluto'', entry_a = 1188000, entry_b = 1188000\<rparr>"
    by (simp add: models_def)
  from r p obtain e' where e': "Ellipsoid_init (\<lambda>x. x) ?s ''pluto'' = Inr e'"
    and b: "semiminor_axis e' = 1188000"
    by (rule registered_fields) simp_all
  have ne: "''pluto'' \<noteq> ''io''" by simp
  from e' have n: "Ellipsoid_new (\<lambda>x. x) ?s (Some ''pluto'') = Inr e'" by (simp add: new_Some)
  note o = t [THEN conjunct2, THEN conjunct2, THEN conjunct2, THEN conjunct2, rule_format,
      OF conjI [OF ne n]]
  then have c: "600 * 1829.7 < semiminor_axis e'" by (elim conjE)
  from n b c have "\<exists>e'. Ellipsoid_new (\<lambda>x. x) ?s (Some ''pluto'') = Inr e' \<and>
      semiminor_axis e' = 1188000 \<and> 600 * 1829.7 < semiminor_axis e'"
    by (intro exI conjI)
  with r io ne show ?thesis by (intro conjI)
qed

end
